theory Spec2Isabelle
  imports Main
begin

section \<open>Data model of the relation join-column builder\<close>

text \<open>
  The builder of \<^verbatim>\<open>src/metadata-builder/RelationJoinColumnBuilder.ts\<close> works on
  a graph of mutable objects: column descriptors are shared between the entity that owns
  them, the relations that use them and the foreign keys built from them, and the builder
  updates them in place. Column descriptors and entity descriptors therefore live in a
  store and are named by references; every read goes through the store of the moment.
\<close>

type_synonym cref = nat
type_synonym eref = nat

text \<open>
  \<^verbatim>\<open>JoinColumnMetadataArgs\<close>: each of the three names is \<^verbatim>\<open>string | undefined\<close>.
\<close>

record JoinColumnMetadataArgs =
  jc_name :: "string option"
  jc_referencedColumnName :: "string option"
  jc_foreignKeyConstraintName :: "string option"

text \<open>
  The truth value JavaScript gives a \<^verbatim>\<open>string | undefined\<close> in \<^verbatim>\<open>!!x\<close> and
  \<^verbatim>\<open>!x\<close>: \<^verbatim>\<open>undefined\<close> and the empty string are false.
\<close>

definition truthy :: "string option \<Rightarrow> bool" where
  "truthy v = (case v of None \<Rightarrow> False | Some x \<Rightarrow> x \<noteq> [])"

record EmbeddedMetadata =
  emb_columns :: "cref list"
  emb_parentPrefixes :: "string list"

record RelationMetadata =
  rel_propertyName :: string
  rel_entityMetadata :: eref
  rel_inverseEntityMetadata :: eref
  rel_embeddedMetadata :: "EmbeddedMetadata option"
  rel_isManyToOne :: bool
  rel_isOneToOne :: bool
  rel_isPrimary :: bool
  rel_isNullable :: bool
  rel_createForeignKeyConstraints :: bool
  rel_onDelete :: "string option"
  rel_onUpdate :: "string option"
  rel_deferrable :: "string option"

text \<open>
  \<^verbatim>\<open>ColumnMetadata\<close>, with the attributes the builder reads or writes. The relation a
  column belongs to is not changed by the builder and is kept by value.
\<close>

record ColumnMetadata =
  col_entityMetadata :: eref
  col_embeddedMetadata :: "EmbeddedMetadata option"
  col_target :: string
  col_isVirtual :: bool
  col_propertyName :: string
  col_givenDatabaseName :: "string option"
  col_databaseName :: string
  col_databaseNameWithoutPrefixes :: string
  col_type :: string
  col_length :: string
  col_width :: "nat option"
  col_charset :: "string option"
  col_collation :: "string option"
  col_precision :: "nat option"
  col_scale :: "nat option"
  col_zerofill :: bool
  col_unsigned :: bool
  col_comment :: "string option"
  col_enum :: "string list option"
  col_enumName :: "string option"
  col_isPrimary :: bool
  col_isNullable :: bool
  col_generationStrategy :: "string option"
  col_referencedColumn :: "cref option"
  col_relationMetadata :: "RelationMetadata option"

record EntityMetadata =
  ent_name :: string
  ent_tableName :: string
  ent_target :: string
  ent_ownColumns :: "cref list"
  ent_primaryColumns :: "cref list"

record ForeignKeyMetadata =
  fk_givenName :: "string option"
  fk_entityMetadata :: eref
  fk_referencedEntityMetadata :: eref
  fk_columns :: "cref list"
  fk_referencedColumns :: "cref list"
  fk_onDelete :: "string option"
  fk_onUpdate :: "string option"
  fk_deferrable :: "string option"

record UniqueMetadata =
  uq_entityMetadata :: eref
  uq_columns :: "cref list"
  uq_givenName :: string
  uq_target :: string

text \<open>
  The collaborators the builder is given through its \<^verbatim>\<open>DataSource\<close>: the naming
  strategy and the driver. Their code is not part of the builder; they are parameters.
  \<^verbatim>\<open>drv_isMySQLFamily\<close> is the answer of \<^verbatim>\<open>DriverUtils.isMySQLFamily(driver)\<close>,
  \<^verbatim>\<open>drv_type\<close> is \<^verbatim>\<open>driver.options.type\<close>.
\<close>

record NamingStrategy =
  ns_joinColumnName :: "string \<Rightarrow> string \<Rightarrow> string"
  ns_relationConstraintName :: "string \<Rightarrow> string list \<Rightarrow> string"
  ns_columnName :: "string \<Rightarrow> string option \<Rightarrow> string list \<Rightarrow> string"

record Driver =
  drv_isMySQLFamily :: bool
  drv_type :: string
  drv_normalizeType :: "ColumnMetadata \<Rightarrow> string"

record DataSource =
  namingStrategy :: NamingStrategy
  driver :: Driver

text \<open>
  The store: the column objects, the next unused column reference, the entity objects.
\<close>

record state =
  columnHeap :: "cref \<Rightarrow> ColumnMetadata"
  nextRef :: cref
  entities :: "eref \<Rightarrow> EntityMetadata"

datatype error = ReferencedColumnNotFound "string option" string

record BuildResult =
  foreignKey :: "ForeignKeyMetadata option"
  columns :: "cref list"
  uniqueConstraint :: "UniqueMetadata option"

section \<open>Operations on the store\<close>

definition updateColumn :: "cref \<Rightarrow> (ColumnMetadata \<Rightarrow> ColumnMetadata) \<Rightarrow> state \<Rightarrow> state" where
  "updateColumn c f s = s\<lparr>columnHeap := (columnHeap s)(c := f (columnHeap s c))\<rparr>"

definition allocColumn :: "ColumnMetadata \<Rightarrow> state \<Rightarrow> cref \<times> state" where
  "allocColumn col s =
     (nextRef s, s\<lparr>columnHeap := (columnHeap s)(nextRef s := col), nextRef := Suc (nextRef s)\<rparr>)"

text \<open>
  Modelled from the spec: the constructor of \<^verbatim>\<open>ColumnMetadata\<close> is not among the
  sources. A new virtual column descriptor takes its attributes from the options the
  builder passes (section 4.2, step 3); its derived names are computed by the build step,
  and it has no referenced-column link and no relation yet.
\<close>

definition ColumnMetadata_new ::
  "eref \<Rightarrow> EmbeddedMetadata option \<Rightarrow> string \<Rightarrow> string option \<Rightarrow> string \<Rightarrow> string \<Rightarrow>
   ColumnMetadata \<Rightarrow> bool \<Rightarrow> bool \<Rightarrow> ColumnMetadata" where
  "ColumnMetadata_new entity embedded prop nm ty len referenced primary nullable =
     \<lparr> col_entityMetadata = entity,
       col_embeddedMetadata = embedded,
       col_target = [],
       col_isVirtual = True,
       col_propertyName = prop,
       col_givenDatabaseName = nm,
       col_databaseName = [],
       col_databaseNameWithoutPrefixes = [],
       col_type = ty,
       col_length = len,
       col_width = col_width referenced,
       col_charset = col_charset referenced,
       col_collation = col_collation referenced,
       col_precision = col_precision referenced,
       col_scale = col_scale referenced,
       col_zerofill = col_zerofill referenced,
       col_unsigned = col_unsigned referenced,
       col_comment = col_comment referenced,
       col_enum = col_enum referenced,
       col_enumName = col_enumName referenced,
       col_isPrimary = primary,
       col_isNullable = nullable,
       col_generationStrategy = None,
       col_referencedColumn = None,
       col_relationMetadata = None \<rparr>"

text \<open>
  Modelled from the spec: \<^verbatim>\<open>ColumnMetadata.build\<close> is not among the sources. It is
  the standard column-build step, which computes the derived physical names of the
  descriptor from the naming strategy and changes nothing else.
\<close>

definition ColumnMetadata_build :: "DataSource \<Rightarrow> ColumnMetadata \<Rightarrow> ColumnMetadata" where
  "ColumnMetadata_build connection col =
     col\<lparr> col_databaseName :=
            ns_columnName (namingStrategy connection) (col_propertyName col)
              (col_givenDatabaseName col)
              (case col_embeddedMetadata col of None \<Rightarrow> [] | Some e \<Rightarrow> emb_parentPrefixes e),
          col_databaseNameWithoutPrefixes :=
            ns_columnName (namingStrategy connection) (col_propertyName col)
              (col_givenDatabaseName col) [] \<rparr>"

text \<open>
  Modelled from the spec: \<^verbatim>\<open>EntityMetadata.registerColumn\<close> is not among the
  sources. Registering a column appends it to the own columns of the entity (the column
  registry is append-only during the build).
\<close>

definition registerColumn :: "eref \<Rightarrow> cref \<Rightarrow> state \<Rightarrow> state" where
  "registerColumn e c s =
     s\<lparr>entities := (entities s)(e := (entities s e)\<lparr>ent_ownColumns := ent_ownColumns (entities s e) @ [c]\<rparr>)\<rparr>"

text \<open>
  Modelled from the spec: \<^verbatim>\<open>OrmUtils.cloneObject\<close> is not among the sources. The
  clone is a new, independent descriptor with the same attributes as the original.
\<close>

definition cloneObject :: "cref \<Rightarrow> state \<Rightarrow> cref \<times> state" where
  "cloneObject c s = allocColumn (columnHeap s c) s"

text \<open>
  Modelled from the spec: the constructor of \<^verbatim>\<open>ForeignKeyMetadata\<close> is not among
  the sources. A foreign key descriptor holds what the builder passes to it: the name
  given by the first join-column specification (the naming strategy assigns one later
  when it is absent), the owning and the referenced entity, the two column lists, and the
  delete and update actions and the deferrable mode of the relation.
\<close>

definition ForeignKeyMetadata_new ::
  "string option \<Rightarrow> RelationMetadata \<Rightarrow> cref list \<Rightarrow> cref list \<Rightarrow> ForeignKeyMetadata" where
  "ForeignKeyMetadata_new nm relation cols refs =
     \<lparr> fk_givenName = nm,
       fk_entityMetadata = rel_entityMetadata relation,
       fk_referencedEntityMetadata = rel_inverseEntityMetadata relation,
       fk_columns = cols,
       fk_referencedColumns = refs,
       fk_onDelete = rel_onDelete relation,
       fk_onUpdate = rel_onUpdate relation,
       fk_deferrable = rel_deferrable relation \<rparr>"

text \<open>
  Modelled from the spec: the constructor of \<^verbatim>\<open>UniqueMetadata\<close> is not among the
  sources. A unique constraint descriptor holds its entity, its columns, and the name and
  the target the builder passes in \<^verbatim>\<open>args\<close>.
\<close>

definition UniqueMetadata_new :: "eref \<Rightarrow> cref list \<Rightarrow> string \<Rightarrow> string \<Rightarrow> UniqueMetadata" where
  "UniqueMetadata_new entity cols nm target =
     \<lparr> uq_entityMetadata = entity, uq_columns = cols, uq_givenName = nm, uq_target = target \<rparr>"

text \<open>
  Modelled from the spec: \<^verbatim>\<open>UniqueMetadata.build\<close> is not among the sources. The
  finalisation of a unique constraint keeps its entity, its columns and the name it was
  given.
\<close>

definition UniqueMetadata_build :: "NamingStrategy \<Rightarrow> UniqueMetadata \<Rightarrow> UniqueMetadata" where
  "UniqueMetadata_build ns u = u"

section \<open>The builder\<close>

subsection \<open>collectReferencedColumns\<close>

text \<open>
  The \<^verbatim>\<open>joinColumns.map\<close> of the second branch: each specification is looked up among
  the own columns of the target entity, in input order, and the first failing lookup
  throws.
\<close>

fun lookupReferencedColumns ::
  "state \<Rightarrow> RelationMetadata \<Rightarrow> JoinColumnMetadataArgs list \<Rightarrow> error + cref list" where
  "lookupReferencedColumns s relation [] = Inr []"
| "lookupReferencedColumns s relation (joinColumn # rest) =
     (case List.find
             (\<lambda>column. Some (col_propertyName (columnHeap s column)) =
                          jc_referencedColumnName joinColumn)
             (ent_ownColumns (entities s (rel_inverseEntityMetadata relation))) of
        None \<Rightarrow>
          Inl (ReferencedColumnNotFound (jc_referencedColumnName joinColumn)
                 (ent_name (entities s (rel_inverseEntityMetadata relation))))
      | Some referencedColumn \<Rightarrow>
          (case lookupReferencedColumns s relation rest of
             Inl e \<Rightarrow> Inl e
           | Inr cols \<Rightarrow> Inr (referencedColumn # cols)))"

definition collectReferencedColumns ::
  "JoinColumnMetadataArgs list \<Rightarrow> RelationMetadata \<Rightarrow> state \<Rightarrow> error + cref list" where
  "collectReferencedColumns joinColumns relation s =
     (let hasAnyReferencedColumnName =
            List.find (\<lambda>joinColumnArgs. truthy (jc_referencedColumnName joinColumnArgs))
              joinColumns;
          manyToOneWithoutJoinColumn = (length joinColumns = 0 \<and> rel_isManyToOne relation);
          hasJoinColumnWithoutAnyReferencedColumnName =
            (length joinColumns > 0 \<and> hasAnyReferencedColumnName = None)
      in if manyToOneWithoutJoinColumn \<or> hasJoinColumnWithoutAnyReferencedColumnName
         then Inr (ent_primaryColumns (entities s (rel_inverseEntityMetadata relation)))
         else lookupReferencedColumns s relation joinColumns)"

subsection \<open>collectColumns\<close>

text \<open>
  The physical name of the join column of one referenced column (lines 171 to 184). The
  specification that is found has a non-empty name, so the result is never
  \<^verbatim>\<open>undefined\<close>; its type in the source is still \<^verbatim>\<open>string | undefined\<close>.
\<close>

definition joinColumnName ::
  "DataSource \<Rightarrow> JoinColumnMetadataArgs list \<Rightarrow> RelationMetadata \<Rightarrow> ColumnMetadata \<Rightarrow>
   string option" where
  "joinColumnName connection joinColumns relation referencedColumn =
     (case List.find
             (\<lambda>joinColumn.
                (\<not> truthy (jc_referencedColumnName joinColumn) \<or>
                 jc_referencedColumnName joinColumn = Some (col_propertyName referencedColumn)) \<and>
                truthy (jc_name joinColumn))
             joinColumns of
        Some joinColumnMetadataArg \<Rightarrow> jc_name joinColumnMetadataArg
      | None \<Rightarrow>
          Some (ns_joinColumnName (namingStrategy connection) (rel_propertyName relation)
                  (col_propertyName referencedColumn)))"

definition relationalColumns :: "RelationMetadata \<Rightarrow> state \<Rightarrow> cref list" where
  "relationalColumns relation s =
     (case rel_embeddedMetadata relation of
        Some embedded \<Rightarrow> emb_columns embedded
      | None \<Rightarrow> ent_ownColumns (entities s (rel_entityMetadata relation)))"

text \<open>The length given to a new virtual column (lines 205 to 220).\<close>

definition newColumnLength :: "DataSource \<Rightarrow> ColumnMetadata \<Rightarrow> string" where
  "newColumnLength connection referencedColumn =
     (if col_length referencedColumn = [] \<and>
         (drv_isMySQLFamily (driver connection) \<or> drv_type (driver connection) = ''aurora-mysql'') \<and>
         drv_normalizeType (driver connection) referencedColumn \<noteq> ''uuid'' \<and>
         (col_generationStrategy referencedColumn = Some ''uuid'' \<or>
          col_type referencedColumn = ''uuid'')
      then ''36''
      else col_length referencedColumn)"

text \<open>
  The column the builder works on for one referenced column (lines 189 to 242): a new
  virtual column, registered on the owning entity, when no column of the scope has the
  name; a clone of the column found when that column already has a referenced-column
  link; the column found otherwise.
\<close>

definition findRelationalColumn ::
  "string option \<Rightarrow> RelationMetadata \<Rightarrow> state \<Rightarrow> cref option" where
  "findRelationalColumn nm relation s =
     List.find (\<lambda>column. Some (col_databaseNameWithoutPrefixes (columnHeap s column)) = nm)
       (relationalColumns relation s)"

definition relationalColumn ::
  "DataSource \<Rightarrow> string option \<Rightarrow> RelationMetadata \<Rightarrow> cref \<Rightarrow> state \<Rightarrow> cref \<times> state" where
  "relationalColumn connection nm relation r s =
     (case findRelationalColumn nm relation s of
        None \<Rightarrow>
          (let referencedColumn = columnHeap s r;
               (c, s1) = allocColumn
                           (ColumnMetadata_new (rel_entityMetadata relation)
                              (rel_embeddedMetadata relation) (rel_propertyName relation) nm
                              (col_type referencedColumn)
                              (newColumnLength connection referencedColumn)
                              referencedColumn (rel_isPrimary relation)
                              (rel_isNullable relation))
                           s
           in (c, registerColumn (rel_entityMetadata relation) c s1))
      | Some found \<Rightarrow>
          (if col_referencedColumn (columnHeap s found) \<noteq> None
           then cloneObject found s
           else (found, s)))"

text \<open>The body of the \<^verbatim>\<open>referencedColumns.map\<close> of \<^verbatim>\<open>collectColumns\<close>.\<close>

definition collectColumn ::
  "DataSource \<Rightarrow> JoinColumnMetadataArgs list \<Rightarrow> RelationMetadata \<Rightarrow> cref \<Rightarrow> state \<Rightarrow>
   cref \<times> state" where
  "collectColumn connection joinColumns relation r s =
     (let nm = joinColumnName connection joinColumns relation (columnHeap s r);
          (c, s1) = relationalColumn connection nm relation r s;
          s2 = updateColumn c (\<lambda>col. col\<lparr>col_referencedColumn := Some r\<rparr>) s1;
          s3 = updateColumn c (\<lambda>col. col\<lparr>col_type := col_type (columnHeap s2 r)\<rparr>) s2;
          s4 = updateColumn c (\<lambda>col. col\<lparr>col_relationMetadata := Some relation\<rparr>) s3;
          s5 = updateColumn c (ColumnMetadata_build connection) s4
      in (c, s5))"

fun collectColumns ::
  "DataSource \<Rightarrow> JoinColumnMetadataArgs list \<Rightarrow> RelationMetadata \<Rightarrow> cref list \<Rightarrow> state \<Rightarrow>
   cref list \<times> state" where
  "collectColumns connection joinColumns relation [] s = ([], s)"
| "collectColumns connection joinColumns relation (r # rs) s =
     (let (c, s1) = collectColumn connection joinColumns relation r s;
          (cs, s2) = collectColumns connection joinColumns relation rs s1
      in (c # cs, s2))"

subsection \<open>build\<close>

text \<open>
  The result is paired with the store the call leaves behind, also when the call throws:
  an exception does not undo what was written before it.
\<close>

definition build ::
  "DataSource \<Rightarrow> JoinColumnMetadataArgs list \<Rightarrow> RelationMetadata \<Rightarrow> state \<Rightarrow>
   (error + BuildResult) \<times> state" where
  "build connection joinColumns relation s =
     (case collectReferencedColumns joinColumns relation s of
        Inl e \<Rightarrow> (Inl e, s)
      | Inr referencedColumns \<Rightarrow>
          (let (cols, s1) = collectColumns connection joinColumns relation referencedColumns s
           in if referencedColumns = [] \<or> \<not> rel_createForeignKeyConstraints relation
              then (Inr \<lparr>foreignKey = None, columns = cols, uniqueConstraint = None\<rparr>, s1)
              else
                (let fk = ForeignKeyMetadata_new
                            (case joinColumns of [] \<Rightarrow> None
                             | first # _ \<Rightarrow> jc_foreignKeyConstraintName first)
                            relation cols referencedColumns
                 in if list_all (\<lambda>column. col_isPrimary (columnHeap s1 column)) cols \<or>
                       \<not> rel_isOneToOne relation
                    then (Inr \<lparr>foreignKey = Some fk, columns = cols, uniqueConstraint = None\<rparr>, s1)
                    else
                      (let uq = UniqueMetadata_build (namingStrategy connection)
                                  (UniqueMetadata_new (rel_entityMetadata relation)
                                     (fk_columns fk)
                                     (ns_relationConstraintName (namingStrategy connection)
                                        (ent_tableName (entities s1 (rel_entityMetadata relation)))
                                        (map (\<lambda>column. col_databaseName (columnHeap s1 column))
                                           (fk_columns fk)))
                                     (ent_target (entities s1 (rel_entityMetadata relation))))
                       in (Inr \<lparr>foreignKey = Some fk, columns = cols,
                                uniqueConstraint = Some uq\<rparr>, s1)))))"

section \<open>Example schemas\<close>

text \<open>
  A naming strategy in the manner of the default one, and two drivers: one with a native
  \<^verbatim>\<open>uuid\<close> type and a MySQL one, which stores a \<^verbatim>\<open>uuid\<close> as \<^verbatim>\<open>varchar\<close>.
\<close>

definition exNamingStrategy :: NamingStrategy where
  "exNamingStrategy =
     \<lparr> ns_joinColumnName = (\<lambda>rel ref. rel @ ''_'' @ ref),
       ns_relationConstraintName = (\<lambda>table cols. ''REL_'' @ table @ concat cols),
       ns_columnName = (\<lambda>prop custom prefixes.
          concat prefixes @ (case custom of None \<Rightarrow> prop
                             | Some n \<Rightarrow> if n = [] then prop else n)) \<rparr>"

definition exConnection :: DataSource where
  "exConnection =
     \<lparr> namingStrategy = exNamingStrategy,
       driver = \<lparr> drv_isMySQLFamily = False, drv_type = ''postgres'',
                  drv_normalizeType = col_type \<rparr> \<rparr>"

definition exMySQLConnection :: DataSource where
  "exMySQLConnection =
     \<lparr> namingStrategy = exNamingStrategy,
       driver = \<lparr> drv_isMySQLFamily = True, drv_type = ''mysql'',
                  drv_normalizeType =
                    (\<lambda>col. if col_type col = ''uuid'' then ''varchar'' else col_type col) \<rparr> \<rparr>"

text \<open>A column declared by the user on entity \<open>e\<close>, already built.\<close>

definition declaredColumn :: "eref \<Rightarrow> string \<Rightarrow> string \<Rightarrow> bool \<Rightarrow> ColumnMetadata" where
  "declaredColumn e prop ty primary =
     \<lparr> col_entityMetadata = e,
       col_embeddedMetadata = None,
       col_target = [],
       col_isVirtual = False,
       col_propertyName = prop,
       col_givenDatabaseName = None,
       col_databaseName = prop,
       col_databaseNameWithoutPrefixes = prop,
       col_type = ty,
       col_length = [],
       col_width = None,
       col_charset = None,
       col_collation = None,
       col_precision = None,
       col_scale = None,
       col_zerofill = False,
       col_unsigned = False,
       col_comment = None,
       col_enum = None,
       col_enumName = None,
       col_isPrimary = primary,
       col_isNullable = False,
       col_generationStrategy = None,
       col_referencedColumn = None,
       col_relationMetadata = None \<rparr>"

definition noEntity :: EntityMetadata where
  "noEntity = \<lparr> ent_name = [], ent_tableName = [], ent_target = [],
                ent_ownColumns = [], ent_primaryColumns = [] \<rparr>"

text \<open>
  Entity 0 is \<^verbatim>\<open>Post\<close> with the column \<^verbatim>\<open>id\<close> (reference 2); entity 1 is
  \<^verbatim>\<open>Category\<close> with the primary column \<^verbatim>\<open>id\<close> (reference 0) and the column
  \<^verbatim>\<open>title\<close> (reference 1).
\<close>

definition exState :: state where
  "exState =
     \<lparr> columnHeap = (\<lambda>_. declaredColumn 0 [] [] False)
          (0 := declaredColumn 1 ''id'' ''int'' True,
           1 := declaredColumn 1 ''title'' ''varchar'' False,
           2 := declaredColumn 0 ''id'' ''int'' True),
       nextRef = 3,
       entities = (\<lambda>_. noEntity)
          (0 := \<lparr> ent_name = ''Post'', ent_tableName = ''post'', ent_target = ''Post'',
                  ent_ownColumns = [2], ent_primaryColumns = [2] \<rparr>,
           1 := \<lparr> ent_name = ''Category'', ent_tableName = ''category'',
                  ent_target = ''Category'',
                  ent_ownColumns = [0, 1], ent_primaryColumns = [0] \<rparr>) \<rparr>"

text \<open>The relation \<^verbatim>\<open>Post.category\<close>, many-to-one, and its one-to-one variant.\<close>

definition exRelation :: RelationMetadata where
  "exRelation =
     \<lparr> rel_propertyName = ''category'',
       rel_entityMetadata = 0,
       rel_inverseEntityMetadata = 1,
       rel_embeddedMetadata = None,
       rel_isManyToOne = True,
       rel_isOneToOne = False,
       rel_isPrimary = False,
       rel_isNullable = True,
       rel_createForeignKeyConstraints = True,
       rel_onDelete = None,
       rel_onUpdate = None,
       rel_deferrable = None \<rparr>"

definition exOneToOne :: RelationMetadata where
  "exOneToOne = exRelation\<lparr>rel_isManyToOne := False, rel_isOneToOne := True\<rparr>"

definition joinColumnArgs :: "string option \<Rightarrow> string option \<Rightarrow> JoinColumnMetadataArgs" where
  "joinColumnArgs nm ref =
     \<lparr> jc_name = nm, jc_referencedColumnName = ref, jc_foreignKeyConstraintName = None \<rparr>"

text \<open>
  The same schema with a \<^verbatim>\<open>Category.id\<close> generated as a uuid and declared as
  \<^verbatim>\<open>varchar\<close> without a length.
\<close>

definition uuidState :: state where
  "uuidState =
     exState\<lparr>columnHeap := (columnHeap exState)
       (0 := (declaredColumn 1 ''id'' ''varchar'' True)\<lparr>col_generationStrategy := Some ''uuid''\<rparr>)\<rparr>"

text \<open>
  The schema after \<^verbatim>\<open>Post.category\<close> has been resolved with
  \<^verbatim>\<open>@JoinColumn({ name: "cat_id" })\<close>: the virtual column \<^verbatim>\<open>cat_id\<close> (reference 3) is
  registered on \<^verbatim>\<open>Post\<close> and linked to \<^verbatim>\<open>Category.id\<close>. A second relation
  \<^verbatim>\<open>Post.mainCategory\<close> is declared with the same join column.
\<close>

definition linkedColumn :: ColumnMetadata where
  "linkedColumn =
     (declaredColumn 0 ''category'' ''int'' False)
       \<lparr>col_isVirtual := True,
        col_givenDatabaseName := Some ''cat_id'',
        col_databaseName := ''cat_id'',
        col_databaseNameWithoutPrefixes := ''cat_id'',
        col_isNullable := True,
        col_referencedColumn := Some 0,
        col_relationMetadata := Some exRelation\<rparr>"

definition sharedState :: state where
  "sharedState =
     exState\<lparr>columnHeap := (columnHeap exState)(3 := linkedColumn),
             nextRef := 4,
             entities := (entities exState)
               (0 := (entities exState 0)\<lparr>ent_ownColumns := [2, 3]\<rparr>)\<rparr>"

definition exSecondRelation :: RelationMetadata where
  "exSecondRelation = exRelation\<lparr>rel_propertyName := ''mainCategory''\<rparr>"

text \<open>
  A self-referencing entity \<^verbatim>\<open>Node\<close> (entity 0) with the composite primary key
  \<^verbatim>\<open>a\<close> (reference 0, \<^verbatim>\<open>int\<close>) and \<^verbatim>\<open>b\<close> (reference 1, \<^verbatim>\<open>varchar\<close>), and its
  relation \<^verbatim>\<open>parent\<close> declared with
  \<^verbatim>\<open>@JoinColumn([{ name: "x", referencedColumnName: "a" }, { name: "a", referencedColumnName: "b" }])\<close>.
\<close>

definition selfState :: state where
  "selfState =
     \<lparr> columnHeap = (\<lambda>_. declaredColumn 0 [] [] False)
          (0 := declaredColumn 0 ''a'' ''int'' True,
           1 := declaredColumn 0 ''b'' ''varchar'' True),
       nextRef = 2,
       entities = (\<lambda>_. noEntity)
          (0 := \<lparr> ent_name = ''Node'', ent_tableName = ''node'', ent_target = ''Node'',
                  ent_ownColumns = [0, 1], ent_primaryColumns = [0, 1] \<rparr>) \<rparr>"

definition selfRelation :: RelationMetadata where
  "selfRelation = exRelation\<lparr>rel_propertyName := ''parent'', rel_inverseEntityMetadata := 0\<rparr>"

definition selfJoinColumns :: "JoinColumnMetadataArgs list" where
  "selfJoinColumns =
     [joinColumnArgs (Some ''x'') (Some ''a''), joinColumnArgs (Some ''a'') (Some ''b'')]"

section \<open>Resolution of the referenced columns\<close>

lemma lookupReferencedColumns_Inr:
  "lookupReferencedColumns s relation jcs = Inr cols \<Longrightarrow>
   length cols = length jcs \<and>
   (\<forall>i<length jcs.
      List.find (\<lambda>column. Some (col_propertyName (columnHeap s column)) =
                   jc_referencedColumnName (jcs ! i))
        (ent_ownColumns (entities s (rel_inverseEntityMetadata relation))) = Some (cols ! i))"
proof (induction jcs arbitrary: cols)
  case Nil
  then show ?case by simp
next
  case (Cons jc jcs)
  from Cons.prems obtain c cs where
    f: "List.find (\<lambda>column. Some (col_propertyName (columnHeap s column)) =
                   jc_referencedColumnName jc)
        (ent_ownColumns (entities s (rel_inverseEntityMetadata relation))) = Some c"
    and r: "lookupReferencedColumns s relation jcs = Inr cs" and e: "cols = c # cs"
    by (auto split: option.splits sum.splits)
  from Cons.IH[OF r] have ih: "length cs = length jcs" 
    "\<forall>i<length jcs.
      List.find (\<lambda>column. Some (col_propertyName (columnHeap s column)) =
                   jc_referencedColumnName (jcs ! i))
        (ent_ownColumns (entities s (rel_inverseEntityMetadata relation))) = Some (cs ! i)" by auto
  show ?case
  proof (intro conjI allI impI)
    show "length cols = length (jc # jcs)" using ih e by simp
  next
    fix i assume "i < length (jc # jcs)"
    then show "List.find (\<lambda>column. Some (col_propertyName (columnHeap s column)) =
                   jc_referencedColumnName ((jc # jcs) ! i))
        (ent_ownColumns (entities s (rel_inverseEntityMetadata relation))) = Some (cols ! i)"
      using f ih e by (cases i) auto
  qed
qed

lemma lookupReferencedColumns_total:
  "\<forall>jc\<in>set jcs. \<exists>c\<in>set (ent_ownColumns (entities s (rel_inverseEntityMetadata relation))).
       Some (col_propertyName (columnHeap s c)) = jc_referencedColumnName jc \<Longrightarrow>
   \<exists>cols. lookupReferencedColumns s relation jcs = Inr cols"
proof (induction jcs)
  case Nil
  then show ?case by simp
next
  case (Cons jc jcs)
  then obtain cs where r: "lookupReferencedColumns s relation jcs = Inr cs" by auto
  from Cons.prems obtain c where "c\<in>set (ent_ownColumns (entities s (rel_inverseEntityMetadata relation)))"
     "Some (col_propertyName (columnHeap s c)) = jc_referencedColumnName jc" by auto
  then have "List.find (\<lambda>column. Some (col_propertyName (columnHeap s column)) =
                   jc_referencedColumnName jc)
        (ent_ownColumns (entities s (rel_inverseEntityMetadata relation))) \<noteq> None"
    by (auto simp: find_None_iff)
  then show ?case using r by (auto split: option.splits)
qed

lemma collectReferencedColumns_if:
  "collectReferencedColumns jcs relation s =
     (if (jcs = [] \<and> rel_isManyToOne relation) \<or>
         (jcs \<noteq> [] \<and> (\<forall>jc\<in>set jcs. \<not> truthy (jc_referencedColumnName jc)))
      then Inr (ent_primaryColumns (entities s (rel_inverseEntityMetadata relation)))
      else lookupReferencedColumns s relation jcs)"
  by (auto simp: collectReferencedColumns_def Let_def find_None_iff)

text \<open>
  Claim C1. \<^verbatim>\<open>collectReferencedColumns\<close> takes one of two branches. When the list of
  join-column specifications is empty and the relation is many-to-one, or the list is not
  empty and no specification carries a referenced-property name (a name that is present
  and not empty, which is what the code tests), the result is the list of primary columns
  of the target entity, as that entity holds it. In every other case a returned list has
  one column per specification, in input order, and the column at each position is the
  first own column of the target entity whose property name equals the referenced-property
  name of the specification at that position; the call returns whenever every
  specification has such a column. (A result of the second branch may happen to equal the
  list of primary columns; the two branches are told apart by their condition.)
\<close>

theorem collectReferencedColumns_branches:
  "(((joinColumns = [] \<and> rel_isManyToOne relation) \<or>
     (joinColumns \<noteq> [] \<and> (\<forall>jc\<in>set joinColumns. \<not> truthy (jc_referencedColumnName jc)))) \<longrightarrow>
      collectReferencedColumns joinColumns relation s =
        Inr (ent_primaryColumns (entities s (rel_inverseEntityMetadata relation)))) \<and>
   (\<not> ((joinColumns = [] \<and> rel_isManyToOne relation) \<or>
        (joinColumns \<noteq> [] \<and> (\<forall>jc\<in>set joinColumns. \<not> truthy (jc_referencedColumnName jc)))) \<longrightarrow>
      (\<forall>cols. collectReferencedColumns joinColumns relation s = Inr cols \<longrightarrow>
         length cols = length joinColumns \<and>
         (\<forall>i<length joinColumns.
            cols ! i \<in> set (ent_ownColumns (entities s (rel_inverseEntityMetadata relation))) \<and>
            Some (col_propertyName (columnHeap s (cols ! i))) =
              jc_referencedColumnName (joinColumns ! i) \<and>
            List.find (\<lambda>column. Some (col_propertyName (columnHeap s column)) =
                                   jc_referencedColumnName (joinColumns ! i))
              (ent_ownColumns (entities s (rel_inverseEntityMetadata relation))) =
              Some (cols ! i))) \<and>
      ((\<forall>jc\<in>set joinColumns.
          \<exists>c\<in>set (ent_ownColumns (entities s (rel_inverseEntityMetadata relation))).
            Some (col_propertyName (columnHeap s c)) = jc_referencedColumnName jc) \<longrightarrow>
       (\<exists>cols. collectReferencedColumns joinColumns relation s = Inr cols)))"
proof (intro conjI impI allI)
  assume "(joinColumns = [] \<and> rel_isManyToOne relation) \<or>
     (joinColumns \<noteq> [] \<and> (\<forall>jc\<in>set joinColumns. \<not> truthy (jc_referencedColumnName jc)))"
  then show "collectReferencedColumns joinColumns relation s =
        Inr (ent_primaryColumns (entities s (rel_inverseEntityMetadata relation)))"
    by (simp add: collectReferencedColumns_if)
next
  fix cols
  assume n: "\<not> ((joinColumns = [] \<and> rel_isManyToOne relation) \<or>
        (joinColumns \<noteq> [] \<and> (\<forall>jc\<in>set joinColumns. \<not> truthy (jc_referencedColumnName jc))))"
    and r: "collectReferencedColumns joinColumns relation s = Inr cols"
  from r have l: "lookupReferencedColumns s relation joinColumns = Inr cols"
    by (simp only: collectReferencedColumns_if n if_False)
  from lookupReferencedColumns_Inr[OF l]
  show "length cols = length joinColumns" by simp
next
  fix cols i
  assume n: "\<not> ((joinColumns = [] \<and> rel_isManyToOne relation) \<or>
        (joinColumns \<noteq> [] \<and> (\<forall>jc\<in>set joinColumns. \<not> truthy (jc_referencedColumnName jc))))"
    and r: "collectReferencedColumns joinColumns relation s = Inr cols"
    and i: "i < length joinColumns"
  from r have l: "lookupReferencedColumns s relation joinColumns = Inr cols"
    by (simp only: collectReferencedColumns_if n if_False)
  from lookupReferencedColumns_Inr[OF l] i
  have f: "List.find (\<lambda>column. Some (col_propertyName (columnHeap s column)) =
                                   jc_referencedColumnName (joinColumns ! i))
              (ent_ownColumns (entities s (rel_inverseEntityMetadata relation))) =
              Some (cols ! i)" by simp
  then show "List.find (\<lambda>column. Some (col_propertyName (columnHeap s column)) =
                                   jc_referencedColumnName (joinColumns ! i))
              (ent_ownColumns (entities s (rel_inverseEntityMetadata relation))) =
              Some (cols ! i)" .
  from f show "cols ! i \<in> set (ent_ownColumns (entities s (rel_inverseEntityMetadata relation)))"
    by (auto simp: find_Some_iff)
  from f show "Some (col_propertyName (columnHeap s (cols ! i))) =
              jc_referencedColumnName (joinColumns ! i)"
    by (auto simp: find_Some_iff)
next
  assume n: "\<not> ((joinColumns = [] \<and> rel_isManyToOne relation) \<or>
        (joinColumns \<noteq> [] \<and> (\<forall>jc\<in>set joinColumns. \<not> truthy (jc_referencedColumnName jc))))"
    and a: "\<forall>jc\<in>set joinColumns.
          \<exists>c\<in>set (ent_ownColumns (entities s (rel_inverseEntityMetadata relation))).
            Some (col_propertyName (columnHeap s c)) = jc_referencedColumnName jc"
  from lookupReferencedColumns_total[OF a]
  show "\<exists>cols. collectReferencedColumns joinColumns relation s = Inr cols"
    by (simp only: collectReferencedColumns_if n if_False)
qed

theorem collectReferencedColumns_branches_witness:
  "collectReferencedColumns [] exRelation exState = Inr [0] \<and>
   collectReferencedColumns [joinColumnArgs (Some ''category_id'') None] exOneToOne exState = Inr [0] \<and>
   (\<exists>cols. collectReferencedColumns [joinColumnArgs None (Some ''title'')] exRelation exState = Inr cols
      \<and> length cols = 1 \<and> col_propertyName (columnHeap exState (cols ! 0)) = ''title'')"
proof (intro conjI)
  have pk: "ent_primaryColumns (entities exState (rel_inverseEntityMetadata exRelation)) = [0]"
    "ent_primaryColumns (entities exState (rel_inverseEntityMetadata exOneToOne)) = [0]"
    by (simp_all add: exState_def exRelation_def exOneToOne_def)
  have "rel_isManyToOne exRelation" by (simp add: exRelation_def)
  with collectReferencedColumns_branches [of "[]" exRelation exState] pk
  show "collectReferencedColumns [] exRelation exState = Inr [0]" by simp
  have "\<not> truthy (jc_referencedColumnName (joinColumnArgs (Some ''category_id'') None))"
    by (simp add: truthy_def joinColumnArgs_def)
  with collectReferencedColumns_branches
         [of "[joinColumnArgs (Some ''category_id'') None]" exOneToOne exState] pk
  show "collectReferencedColumns [joinColumnArgs (Some ''category_id'') None] exOneToOne exState
          = Inr [0]" by simp
  have t: "truthy (jc_referencedColumnName (joinColumnArgs None (Some ''title'')))"
    by (simp add: truthy_def joinColumnArgs_def)
  have own: "ent_ownColumns (entities exState (rel_inverseEntityMetadata exRelation)) = [0, 1]"
    by (simp add: exState_def exRelation_def)
  have nm: "col_propertyName (columnHeap exState 1) = ''title''"
    by (simp add: exState_def declaredColumn_def)
  have jr: "jc_referencedColumnName (joinColumnArgs None (Some ''title'')) = Some ''title''"
    by (simp add: joinColumnArgs_def)
  from collectReferencedColumns_branches
         [of "[joinColumnArgs None (Some ''title'')]" exRelation exState] t own nm jr
  show "\<exists>cols. collectReferencedColumns [joinColumnArgs None (Some ''title'')] exRelation exState
           = Inr cols \<and> length cols = 1 \<and> col_propertyName (columnHeap exState (cols ! 0)) = ''title''"
    by auto
qed

section \<open>The missing referenced column\<close>

lemma lookupReferencedColumns_missing:
  "\<exists>jc\<in>set jcs. \<forall>c\<in>set (ent_ownColumns (entities s (rel_inverseEntityMetadata relation))).
       Some (col_propertyName (columnHeap s c)) \<noteq> jc_referencedColumnName jc \<Longrightarrow>
   \<exists>jc\<in>set jcs.
     (\<forall>c\<in>set (ent_ownColumns (entities s (rel_inverseEntityMetadata relation))).
        Some (col_propertyName (columnHeap s c)) \<noteq> jc_referencedColumnName jc) \<and>
     lookupReferencedColumns s relation jcs =
       Inl (ReferencedColumnNotFound (jc_referencedColumnName jc)
              (ent_name (entities s (rel_inverseEntityMetadata relation))))"
proof (induction jcs)
  case Nil
  then show ?case by simp
next
  case (Cons jc jcs)
  let ?own = "ent_ownColumns (entities s (rel_inverseEntityMetadata relation))"
  let ?P = "\<lambda>column. Some (col_propertyName (columnHeap s column)) = jc_referencedColumnName jc"
  show ?case
  proof (cases "List.find ?P ?own")
    case None
    then have "\<forall>c\<in>set ?own. \<not> ?P c" by (simp add: find_None_iff)
    with None show ?thesis by simp
  next
    case (Some c)
    then have "\<exists>c\<in>set ?own. ?P c"
      by (auto simp: find_Some_iff)
    with Cons.prems have "\<exists>jc\<in>set jcs. \<forall>c\<in>set ?own.
       Some (col_propertyName (columnHeap s c)) \<noteq> jc_referencedColumnName jc" by auto
    from Cons.IH[OF this] show ?thesis using Some by auto
  qed
qed

lemma collectReferencedColumns_lookup:
  "\<exists>jc\<in>set jcs. truthy (jc_referencedColumnName jc) \<Longrightarrow>
   collectReferencedColumns jcs relation s = lookupReferencedColumns s relation jcs"
  by (auto simp: collectReferencedColumns_def Let_def find_None_iff)

lemma build_error:
  "collectReferencedColumns jcs relation s = Inl e \<Longrightarrow> build connection jcs relation s = (Inl e, s)"
  by (simp add: build_def)

text \<open>
  Claim C5. When some join-column specification names a referenced property (its
  referenced-property name is present and not empty) that no own column of the target
  entity has as its property name, \<^verbatim>\<open>build\<close> throws the error
  \<^verbatim>\<open>ReferencedColumnNotFound\<close>, raised for a specification of the list whose
  referenced property is missing, and leaves the store as it was: no column is created,
  none is registered on the owning entity, and no foreign key or unique constraint is
  returned.
\<close>

theorem build_referenced_column_not_found:
  assumes "jc \<in> set joinColumns"
    and "truthy (jc_referencedColumnName jc)"
    and "\<forall>c\<in>set (ent_ownColumns (entities s (rel_inverseEntityMetadata relation))).
           Some (col_propertyName (columnHeap s c)) \<noteq> jc_referencedColumnName jc"
  shows "\<exists>missing\<in>set joinColumns.
           (\<forall>c\<in>set (ent_ownColumns (entities s (rel_inverseEntityMetadata relation))).
              Some (col_propertyName (columnHeap s c)) \<noteq> jc_referencedColumnName missing) \<and>
           build connection joinColumns relation s =
             (Inl (ReferencedColumnNotFound (jc_referencedColumnName missing)
                     (ent_name (entities s (rel_inverseEntityMetadata relation)))), s)"
proof -
  from assms(1,2) have l: "collectReferencedColumns joinColumns relation s =
      lookupReferencedColumns s relation joinColumns"
    by (intro collectReferencedColumns_lookup) blast
  from assms(1,3) have "\<exists>jc\<in>set joinColumns.
      \<forall>c\<in>set (ent_ownColumns (entities s (rel_inverseEntityMetadata relation))).
       Some (col_propertyName (columnHeap s c)) \<noteq> jc_referencedColumnName jc" by blast
  from lookupReferencedColumns_missing[OF this] obtain m where
    m: "m \<in> set joinColumns"
       "\<forall>c\<in>set (ent_ownColumns (entities s (rel_inverseEntityMetadata relation))).
          Some (col_propertyName (columnHeap s c)) \<noteq> jc_referencedColumnName m"
       "lookupReferencedColumns s relation joinColumns =
         Inl (ReferencedColumnNotFound (jc_referencedColumnName m)
              (ent_name (entities s (rel_inverseEntityMetadata relation))))" by blast
  from m(3) l have "build connection joinColumns relation s =
             (Inl (ReferencedColumnNotFound (jc_referencedColumnName m)
                     (ent_name (entities s (rel_inverseEntityMetadata relation)))), s)"
    by (simp add: build_error)
  with m(1,2) show ?thesis by blast
qed

theorem build_referenced_column_not_found_witness:
  "build exConnection [joinColumnArgs None (Some ''name'')] exRelation exState =
     (Inl (ReferencedColumnNotFound (Some ''name'') ''Category''), exState)"
proof -
  have t: "truthy (jc_referencedColumnName (joinColumnArgs None (Some ''name'')))"
    by (simp add: truthy_def joinColumnArgs_def)
  have own: "ent_ownColumns (entities exState (rel_inverseEntityMetadata exRelation)) = [0, 1]"
    by (simp add: exState_def exRelation_def)
  have nm: "col_propertyName (columnHeap exState 0) = ''id''"
    "col_propertyName (columnHeap exState (Suc 0)) = ''title''"
    by (simp_all add: exState_def declaredColumn_def)
  have jr: "jc_referencedColumnName (joinColumnArgs None (Some ''name'')) = Some ''name''"
    by (simp add: joinColumnArgs_def)
  have en: "ent_name (entities exState (rel_inverseEntityMetadata exRelation)) = ''Category''"
    by (simp add: exState_def exRelation_def)
  have "\<forall>c\<in>set (ent_ownColumns (entities exState (rel_inverseEntityMetadata exRelation))).
           Some (col_propertyName (columnHeap exState c)) \<noteq>
           jc_referencedColumnName (joinColumnArgs None (Some ''name''))"
    by (simp add: own nm jr)
  from build_referenced_column_not_found
         [of "joinColumnArgs None (Some ''name'')" "[joinColumnArgs None (Some ''name'')]"
             exState exRelation exConnection, OF _ t this]
  show ?thesis by (simp add: jr en)
qed

text \<open>
  Claim C10. When the list of join-column specifications holds a specification that
  carries a referenced-property name and a specification whose referenced-property name
  is absent, every specification goes through the lookup, the absent name matches no
  column of the target entity, and the resolution throws \<^verbatim>\<open>ReferencedColumnNotFound\<close>
  instead of returning the primary columns; \<^verbatim>\<open>build\<close> throws the same error and
  leaves the store as it was. (An empty string is a name that is present: the lookup
  compares it with the property names like any other.)
\<close>

theorem collectReferencedColumns_mixed_specifications:
  assumes "\<exists>jc\<in>set joinColumns. truthy (jc_referencedColumnName jc)"
    and "\<exists>jc\<in>set joinColumns. jc_referencedColumnName jc = None"
  shows "\<exists>missing\<in>set joinColumns.
           collectReferencedColumns joinColumns relation s =
             Inl (ReferencedColumnNotFound (jc_referencedColumnName missing)
                    (ent_name (entities s (rel_inverseEntityMetadata relation)))) \<and>
           collectReferencedColumns joinColumns relation s \<noteq>
             Inr (ent_primaryColumns (entities s (rel_inverseEntityMetadata relation))) \<and>
           build connection joinColumns relation s =
             (Inl (ReferencedColumnNotFound (jc_referencedColumnName missing)
                     (ent_name (entities s (rel_inverseEntityMetadata relation)))), s)"
proof -
  from assms(1) have l: "collectReferencedColumns joinColumns relation s =
      lookupReferencedColumns s relation joinColumns"
    by (rule collectReferencedColumns_lookup)
  from assms(2) obtain absent where
    "absent \<in> set joinColumns" "jc_referencedColumnName absent = None" by blast
  then have "\<exists>jc\<in>set joinColumns.
      \<forall>c\<in>set (ent_ownColumns (entities s (rel_inverseEntityMetadata relation))).
       Some (col_propertyName (columnHeap s c)) \<noteq> jc_referencedColumnName jc"
    by (intro bexI[of _ absent]) simp_all
  from lookupReferencedColumns_missing[OF this] obtain m where
    m: "m \<in> set joinColumns"
       "lookupReferencedColumns s relation joinColumns =
         Inl (ReferencedColumnNotFound (jc_referencedColumnName m)
              (ent_name (entities s (rel_inverseEntityMetadata relation))))" by blast
  from m(2) l have "collectReferencedColumns joinColumns relation s =
             Inl (ReferencedColumnNotFound (jc_referencedColumnName m)
                    (ent_name (entities s (rel_inverseEntityMetadata relation))))" by simp
  with m(1) show ?thesis by (auto simp: build_error)
qed

theorem collectReferencedColumns_mixed_specifications_witness:
  "collectReferencedColumns
     [joinColumnArgs (Some ''category_title'') (Some ''title''), joinColumnArgs (Some ''category_id'') None]
     exRelation exState = Inl (ReferencedColumnNotFound None ''Category'')"
proof -
  let ?jcs = "[joinColumnArgs (Some ''category_title'') (Some ''title''),
               joinColumnArgs (Some ''category_id'') None]"
  have a: "\<exists>jc\<in>set ?jcs. truthy (jc_referencedColumnName jc)"
    by (simp add: truthy_def joinColumnArgs_def)
  have b: "\<exists>jc\<in>set ?jcs. jc_referencedColumnName jc = None"
    by (simp add: joinColumnArgs_def)
  have own: "ent_ownColumns (entities exState (rel_inverseEntityMetadata exRelation)) = [0, 1]"
    by (simp add: exState_def exRelation_def)
  have nm: "col_propertyName (columnHeap exState 0) = ''id''"
    "col_propertyName (columnHeap exState (Suc 0)) = ''title''"
    by (simp_all add: exState_def declaredColumn_def)
  have en: "ent_name (entities exState (rel_inverseEntityMetadata exRelation)) = ''Category''"
    by (simp add: exState_def exRelation_def)
  have ok: "collectReferencedColumns ?jcs exRelation exState \<noteq>
          Inl (ReferencedColumnNotFound (Some ''title'') ''Category'')"
    using a by (simp add: collectReferencedColumns_lookup own nm joinColumnArgs_def)
  from collectReferencedColumns_mixed_specifications [OF a b, of exRelation exState exConnection] ok
  show ?thesis by (auto simp: en joinColumnArgs_def)
qed

section \<open>Materialising one join column\<close>

lemma relationalColumn_new:
  "findRelationalColumn nm relation s = None \<Longrightarrow>
   relationalColumn connection nm relation r s =
     (nextRef s,
      s\<lparr>columnHeap := (columnHeap s)
           (nextRef s := ColumnMetadata_new (rel_entityMetadata relation)
              (rel_embeddedMetadata relation) (rel_propertyName relation) nm
              (col_type (columnHeap s r)) (newColumnLength connection (columnHeap s r))
              (columnHeap s r) (rel_isPrimary relation) (rel_isNullable relation)),
         nextRef := Suc (nextRef s),
         entities := (entities s)
           (rel_entityMetadata relation := (entities s (rel_entityMetadata relation))
              \<lparr>ent_ownColumns :=
                 ent_ownColumns (entities s (rel_entityMetadata relation)) @ [nextRef s]\<rparr>)\<rparr>)"
  by (simp add: relationalColumn_def allocColumn_def registerColumn_def Let_def)

lemma relationalColumn_clone:
  "findRelationalColumn nm relation s = Some found \<Longrightarrow>
   col_referencedColumn (columnHeap s found) \<noteq> None \<Longrightarrow>
   relationalColumn connection nm relation r s =
     (nextRef s,
      s\<lparr>columnHeap := (columnHeap s)(nextRef s := columnHeap s found),
         nextRef := Suc (nextRef s)\<rparr>)"
  by (simp add: relationalColumn_def cloneObject_def allocColumn_def)

lemma relationalColumn_reuse:
  "findRelationalColumn nm relation s = Some found \<Longrightarrow>
   col_referencedColumn (columnHeap s found) = None \<Longrightarrow>
   relationalColumn connection nm relation r s = (found, s)"
  by (simp add: relationalColumn_def)

lemma collectColumn_unfold:
  "collectColumn connection jcs relation r s =
     (case relationalColumn connection (joinColumnName connection jcs relation (columnHeap s r))
             relation r s of
        (c, s1) \<Rightarrow>
          (c, s1\<lparr>columnHeap := (columnHeap s1)
                  (c := ColumnMetadata_build connection
                          ((columnHeap s1 c)
                             \<lparr>col_referencedColumn := Some r,
                              col_type := col_type (columnHeap s1 r),
                              col_relationMetadata := Some relation\<rparr>))\<rparr>))"
  by (simp add: collectColumn_def updateColumn_def Let_def split: prod.splits)

lemma findRelationalColumn_Some:
  "findRelationalColumn nm relation s = Some found \<Longrightarrow>
   found \<in> set (relationalColumns relation s) \<and>
   Some (col_databaseNameWithoutPrefixes (columnHeap s found)) = nm"
  by (auto simp: findRelationalColumn_def find_Some_iff)

lemma ColumnMetadata_build_keeps:
  "col_type (ColumnMetadata_build connection col) = col_type col"
  "col_length (ColumnMetadata_build connection col) = col_length col"
  "col_referencedColumn (ColumnMetadata_build connection col) = col_referencedColumn col"
  "col_relationMetadata (ColumnMetadata_build connection col) = col_relationMetadata col"
  "col_isPrimary (ColumnMetadata_build connection col) = col_isPrimary col"
  "col_isVirtual (ColumnMetadata_build connection col) = col_isVirtual col"
  "col_givenDatabaseName (ColumnMetadata_build connection col) = col_givenDatabaseName col"
  "col_propertyName (ColumnMetadata_build connection col) = col_propertyName col"
  by (simp_all add: ColumnMetadata_build_def)

text \<open>The three ways one referenced column is resolved.\<close>

lemma collectColumn_new:
  assumes "findRelationalColumn (joinColumnName connection jcs relation (columnHeap s r))
             relation s = None"
  shows "collectColumn connection jcs relation r s =
     (nextRef s,
      s\<lparr>columnHeap := (columnHeap s)
           (nextRef s := ColumnMetadata_build connection
              ((ColumnMetadata_new (rel_entityMetadata relation)
                  (rel_embeddedMetadata relation) (rel_propertyName relation)
                  (joinColumnName connection jcs relation (columnHeap s r))
                  (col_type (columnHeap s r)) (newColumnLength connection (columnHeap s r))
                  (columnHeap s r) (rel_isPrimary relation) (rel_isNullable relation))
               \<lparr>col_referencedColumn := Some r,
                col_relationMetadata := Some relation\<rparr>)),
         nextRef := Suc (nextRef s),
         entities := (entities s)
           (rel_entityMetadata relation := (entities s (rel_entityMetadata relation))
              \<lparr>ent_ownColumns :=
                 ent_ownColumns (entities s (rel_entityMetadata relation)) @ [nextRef s]\<rparr>)\<rparr>)"
  unfolding collectColumn_unfold relationalColumn_new[OF assms]
  by (simp add: ColumnMetadata_new_def)

lemma collectColumn_clone:
  assumes "findRelationalColumn (joinColumnName connection jcs relation (columnHeap s r))
             relation s = Some found"
    and "col_referencedColumn (columnHeap s found) \<noteq> None"
  shows "collectColumn connection jcs relation r s =
     (nextRef s,
      s\<lparr>columnHeap := (columnHeap s)
           (nextRef s := ColumnMetadata_build connection
              ((columnHeap s found)
               \<lparr>col_referencedColumn := Some r,
                col_type := col_type (if r = nextRef s then columnHeap s found else columnHeap s r),
                col_relationMetadata := Some relation\<rparr>)),
         nextRef := Suc (nextRef s)\<rparr>)"
  unfolding collectColumn_unfold relationalColumn_clone[OF assms]
  by simp

lemma collectColumn_reuse:
  assumes "findRelationalColumn (joinColumnName connection jcs relation (columnHeap s r))
             relation s = Some found"
    and "col_referencedColumn (columnHeap s found) = None"
  shows "collectColumn connection jcs relation r s =
     (found,
      s\<lparr>columnHeap := (columnHeap s)
           (found := ColumnMetadata_build connection
              ((columnHeap s found)
               \<lparr>col_referencedColumn := Some r,
                col_type := col_type (columnHeap s r),
                col_relationMetadata := Some relation\<rparr>))\<rparr>)"
  unfolding collectColumn_unfold relationalColumn_reuse[OF assms]
  by simp

lemma collectColumn_link:
  assumes "collectColumn connection jcs relation r s = (c, s')"
  shows "col_referencedColumn (columnHeap s' c) = Some r"
proof (cases "findRelationalColumn (joinColumnName connection jcs relation (columnHeap s r)) relation s")
  case None
  with collectColumn_new[OF None] assms show ?thesis
    by (auto simp: ColumnMetadata_build_keeps)
next
  case (Some found)
  show ?thesis
  proof (cases "col_referencedColumn (columnHeap s found) = None")
    case True
    from collectColumn_reuse[OF Some True] True assms show ?thesis
      by (auto simp: ColumnMetadata_build_keeps)
  next
    case False
    from collectColumn_clone[OF Some False] assms show ?thesis
      by (auto simp: ColumnMetadata_build_keeps)
  qed
qed

lemma collectColumn_type:
  assumes "collectColumn connection jcs relation r s = (c, s')"
    and "r < nextRef s"
  shows "col_type (columnHeap s' c) = col_type (columnHeap s r) \<and>
         col_type (columnHeap s' r) = col_type (columnHeap s r)"
proof (cases "findRelationalColumn (joinColumnName connection jcs relation (columnHeap s r)) relation s")
  case None
  with collectColumn_new[OF None] assms show ?thesis
    by (auto simp: ColumnMetadata_build_keeps ColumnMetadata_new_def)
next
  case (Some found)
  show ?thesis
  proof (cases "col_referencedColumn (columnHeap s found) = None")
    case True
    from collectColumn_reuse[OF Some True] True assms show ?thesis
      by (auto simp: ColumnMetadata_build_keeps)
  next
    case False
    from collectColumn_clone[OF Some False] assms show ?thesis
      by (auto simp: ColumnMetadata_build_keeps)
  qed
qed

section \<open>The example schemas, evaluated\<close>

lemmas ex_defs = exConnection_def exNamingStrategy_def exRelation_def exState_def
  joinColumnArgs_def declaredColumn_def truthy_def

lemma joinColumnArgs_sel:
  "jc_name (joinColumnArgs n r) = n"
  "jc_referencedColumnName (joinColumnArgs n r) = r"
  "jc_foreignKeyConstraintName (joinColumnArgs n r) = None"
  by (simp_all add: joinColumnArgs_def)

lemma first_find:
  "findRelationalColumn
     (joinColumnName exConnection [joinColumnArgs (Some ''cat_id'') None] exRelation
        (columnHeap exState 0)) exRelation exState = None"
  by (simp add: findRelationalColumn_def joinColumnName_def relationalColumns_def ex_defs)

lemma first_collectColumn:
  "collectColumn exConnection [joinColumnArgs (Some ''cat_id'') None] exRelation 0 exState =
     (3, sharedState)"
  unfolding collectColumn_new[OF first_find]
  by (simp add: sharedState_def linkedColumn_def ColumnMetadata_build_def ColumnMetadata_new_def
        joinColumnName_def newColumnLength_def ex_defs fun_eq_iff)

lemma sharedState_is_first_resolution:
  "build exConnection [joinColumnArgs (Some ''cat_id'') None] exRelation exState =
     (Inr \<lparr>foreignKey = Some (ForeignKeyMetadata_new None exRelation [3] [0]), columns = [3],
           uniqueConstraint = None\<rparr>, sharedState)"
proof -
  have r: "collectReferencedColumns [joinColumnArgs (Some ''cat_id'') None] exRelation exState = Inr [0]"
    by (simp add: collectReferencedColumns_def ex_defs)
  have c: "collectColumns exConnection [joinColumnArgs (Some ''cat_id'') None] exRelation [0] exState
      = ([3], sharedState)"
    by (simp add: first_collectColumn)
  have f: "rel_createForeignKeyConstraints exRelation" "\<not> rel_isOneToOne exRelation"
    by (simp_all add: exRelation_def)
  show ?thesis
    by (simp add: build_def r first_collectColumn f joinColumnArgs_sel)
qed

section \<open>Names, lengths and clones\<close>

lemma uuid_find:
  "namingStrategy connection = exNamingStrategy \<Longrightarrow>
   findRelationalColumn (joinColumnName connection [] exRelation (columnHeap uuidState 0))
     exRelation uuidState = None"
  by (simp add: findRelationalColumn_def joinColumnName_def relationalColumns_def uuidState_def
        exNamingStrategy_def exRelation_def exState_def declaredColumn_def)

lemma second_find:
  "findRelationalColumn
     (joinColumnName exConnection [joinColumnArgs (Some ''cat_id'') None] exSecondRelation
        (columnHeap sharedState 0)) exSecondRelation sharedState = Some 3"
  by (simp add: findRelationalColumn_def joinColumnName_def relationalColumns_def
        exSecondRelation_def sharedState_def linkedColumn_def ex_defs)

text \<open>
  Claim C3. For a referenced column that is being materialised, the join-column name is
  the name of the first join-column specification whose referenced-property name is unset
  (absent or empty) or equal to the property name of the referenced column, and whose name
  is set (present and not empty); when no specification is of that kind, it is the
  \<^verbatim>\<open>joinColumnName\<close> of the naming strategy for the property name of the relation
  and the property name of the referenced column. The materialised column goes by that
  name: a new column is created with it as its given database name, from which the build
  step derives its physical name, and a column of the scope is taken (or cloned) only if
  its database name without prefixes is that name.
\<close>

theorem join_column_name:
  assumes "collectColumn connection jcs relation r s = (c, s')"
  shows
    "(\<forall>i<length jcs.
        ((\<not> truthy (jc_referencedColumnName (jcs ! i)) \<or>
          jc_referencedColumnName (jcs ! i) = Some (col_propertyName (columnHeap s r))) \<and>
         truthy (jc_name (jcs ! i))) \<and>
        (\<forall>j<i. \<not> ((\<not> truthy (jc_referencedColumnName (jcs ! j)) \<or>
                    jc_referencedColumnName (jcs ! j) = Some (col_propertyName (columnHeap s r))) \<and>
                   truthy (jc_name (jcs ! j))))
        \<longrightarrow> joinColumnName connection jcs relation (columnHeap s r) = jc_name (jcs ! i)) \<and>
     ((\<forall>jc\<in>set jcs.
         \<not> ((\<not> truthy (jc_referencedColumnName jc) \<or>
              jc_referencedColumnName jc = Some (col_propertyName (columnHeap s r))) \<and>
             truthy (jc_name jc)))
        \<longrightarrow> joinColumnName connection jcs relation (columnHeap s r) =
              Some (ns_joinColumnName (namingStrategy connection) (rel_propertyName relation)
                      (col_propertyName (columnHeap s r)))) \<and>
     (findRelationalColumn (joinColumnName connection jcs relation (columnHeap s r)) relation s = None
        \<longrightarrow> c = nextRef s \<and>
            col_givenDatabaseName (columnHeap s' c) =
              joinColumnName connection jcs relation (columnHeap s r) \<and>
            col_databaseNameWithoutPrefixes (columnHeap s' c) =
              ns_columnName (namingStrategy connection) (rel_propertyName relation)
                (joinColumnName connection jcs relation (columnHeap s r)) []) \<and>
     (\<forall>found.
        findRelationalColumn (joinColumnName connection jcs relation (columnHeap s r)) relation s
          = Some found
        \<longrightarrow> found \<in> set (relationalColumns relation s) \<and>
            Some (col_databaseNameWithoutPrefixes (columnHeap s found)) =
              joinColumnName connection jcs relation (columnHeap s r) \<and>
            (c = found \<or> c = nextRef s) \<and>
            col_givenDatabaseName (columnHeap s' c) = col_givenDatabaseName (columnHeap s found) \<and>
            col_propertyName (columnHeap s' c) = col_propertyName (columnHeap s found))"
proof (intro conjI allI impI)
  fix i
  let ?P = "\<lambda>joinColumn.
                (\<not> truthy (jc_referencedColumnName joinColumn) \<or>
                 jc_referencedColumnName joinColumn = Some (col_propertyName (columnHeap s r))) \<and>
                truthy (jc_name joinColumn)"
  assume i: "i < length jcs" and "?P (jcs ! i) \<and> (\<forall>j<i. \<not> ?P (jcs ! j))"
  then have "List.find ?P jcs = Some (jcs ! i)"
    unfolding find_Some_iff by blast
  then show "joinColumnName connection jcs relation (columnHeap s r) = jc_name (jcs ! i)"
    by (simp add: joinColumnName_def)
next
  let ?P = "\<lambda>joinColumn.
                (\<not> truthy (jc_referencedColumnName joinColumn) \<or>
                 jc_referencedColumnName joinColumn = Some (col_propertyName (columnHeap s r))) \<and>
                truthy (jc_name joinColumn)"
  assume "\<forall>jc\<in>set jcs. \<not> ?P jc"
  then have "List.find ?P jcs = None"
    unfolding find_None_iff by blast
  then show "joinColumnName connection jcs relation (columnHeap s r) =
              Some (ns_joinColumnName (namingStrategy connection) (rel_propertyName relation)
                      (col_propertyName (columnHeap s r)))"
    by (simp add: joinColumnName_def)
next
  assume n: "findRelationalColumn (joinColumnName connection jcs relation (columnHeap s r)) relation s
     = None"
  from assms collectColumn_new[OF n]
  have c: "c = nextRef s"
    and h: "columnHeap s' c = ColumnMetadata_build connection
              ((ColumnMetadata_new (rel_entityMetadata relation)
                  (rel_embeddedMetadata relation) (rel_propertyName relation)
                  (joinColumnName connection jcs relation (columnHeap s r))
                  (col_type (columnHeap s r)) (newColumnLength connection (columnHeap s r))
                  (columnHeap s r) (rel_isPrimary relation) (rel_isNullable relation))
               \<lparr>col_referencedColumn := Some r,
                col_relationMetadata := Some relation\<rparr>)"
    by auto
  from c show "c = nextRef s" .
  show "col_givenDatabaseName (columnHeap s' c) =
              joinColumnName connection jcs relation (columnHeap s r)"
    unfolding h by (simp add: ColumnMetadata_build_keeps ColumnMetadata_new_def)
  show "col_databaseNameWithoutPrefixes (columnHeap s' c) =
              ns_columnName (namingStrategy connection) (rel_propertyName relation)
                (joinColumnName connection jcs relation (columnHeap s r)) []"
    unfolding h by (simp add: ColumnMetadata_build_def ColumnMetadata_new_def)
next
  fix found
  assume f: "findRelationalColumn (joinColumnName connection jcs relation (columnHeap s r)) relation s
     = Some found"
  from findRelationalColumn_Some[OF f]
  show "found \<in> set (relationalColumns relation s)"
    and "Some (col_databaseNameWithoutPrefixes (columnHeap s found)) =
              joinColumnName connection jcs relation (columnHeap s r)" by simp_all
  have "(c = found \<or> c = nextRef s) \<and>
        col_givenDatabaseName (columnHeap s' c) = col_givenDatabaseName (columnHeap s found) \<and>
        col_propertyName (columnHeap s' c) = col_propertyName (columnHeap s found)"
  proof (cases "col_referencedColumn (columnHeap s found) = None")
    case True
    from assms collectColumn_reuse[OF f True] show ?thesis
      by (auto simp: ColumnMetadata_build_keeps)
  next
    case False
    from assms collectColumn_clone[OF f False] show ?thesis
      by (auto simp: ColumnMetadata_build_keeps)
  qed
  then show "c = found \<or> c = nextRef s"
    and "col_givenDatabaseName (columnHeap s' c) = col_givenDatabaseName (columnHeap s found)"
    and "col_propertyName (columnHeap s' c) = col_propertyName (columnHeap s found)"
    by simp_all
qed

theorem join_column_name_witness:
  "joinColumnName exConnection [joinColumnArgs (Some ''cat_id'') None] exRelation
     (columnHeap exState 0) = Some ''cat_id'' \<and>
   col_givenDatabaseName
     (columnHeap (snd (collectColumn exConnection [joinColumnArgs (Some ''cat_id'') None]
                         exRelation 0 exState)) 3) = Some ''cat_id'' \<and>
   joinColumnName exConnection [joinColumnArgs None (Some ''title'')] exRelation
     (columnHeap exState 1) = Some ''category_title''"
proof (intro conjI)
  let ?jcs = "[joinColumnArgs (Some ''cat_id'') None]"
  obtain c s' where e: "collectColumn exConnection ?jcs exRelation 0 exState = (c, s')"
    by (cases "collectColumn exConnection ?jcs exRelation 0 exState")
  note t = join_column_name [OF e]
  have p: "truthy (jc_name (?jcs ! 0))" "\<not> truthy (jc_referencedColumnName (?jcs ! 0))"
    "jc_name (?jcs ! 0) = Some ''cat_id''"
    by (simp_all add: joinColumnArgs_sel truthy_def)
  from t p show nm: "joinColumnName exConnection ?jcs exRelation (columnHeap exState 0) = Some ''cat_id''"
    by simp
  have n: "nextRef exState = 3" by (simp add: exState_def)
  from t first_find have "c = nextRef exState"
    and "col_givenDatabaseName (columnHeap s' c) =
           joinColumnName exConnection ?jcs exRelation (columnHeap exState 0)"
    by blast+
  then have "col_givenDatabaseName (columnHeap s' 3) = Some ''cat_id''"
    by (simp add: n nm)
  then show "col_givenDatabaseName
     (columnHeap (snd (collectColumn exConnection ?jcs exRelation 0 exState)) 3) = Some ''cat_id''"
    unfolding e by simp
  let ?jcs2 = "[joinColumnArgs None (Some ''title'')]"
  obtain d t' where e2: "collectColumn exConnection ?jcs2 exRelation 1 exState = (d, t')"
    by (cases "collectColumn exConnection ?jcs2 exRelation 1 exState")
  have q: "\<forall>jc\<in>set ?jcs2. \<not> truthy (jc_name jc)"
    by (simp add: joinColumnArgs_sel truthy_def)
  have v: "ns_joinColumnName (namingStrategy exConnection) (rel_propertyName exRelation)
             (col_propertyName (columnHeap exState 1)) = ''category_title''"
    by (simp add: exConnection_def exNamingStrategy_def exRelation_def exState_def declaredColumn_def)
  from join_column_name [OF e2] q v
  show "joinColumnName exConnection ?jcs2 exRelation (columnHeap exState 1) = Some ''category_title''"
    by simp
qed

text \<open>
  Claim C7. When no column of the scope has the join-column name, a new virtual column is
  created. Its length is \<^verbatim>\<open>"36"\<close> when the referenced column has no length, the
  driver is of the MySQL family (or of type \<^verbatim>\<open>aurora-mysql\<close>), the type the driver
  normalises the referenced column to is not \<^verbatim>\<open>uuid\<close>, and the referenced column is
  generated as a uuid or declared of type \<^verbatim>\<open>uuid\<close>; in every other case its length
  is the length of the referenced column.
\<close>

theorem new_virtual_column_length:
  assumes "findRelationalColumn (joinColumnName connection jcs relation (columnHeap s r))
             relation s = None"
    and "collectColumn connection jcs relation r s = (c, s')"
  shows "c = nextRef s \<and> col_isVirtual (columnHeap s' c) \<and>
     (col_length (columnHeap s r) = [] \<and>
      (drv_isMySQLFamily (driver connection) \<or> drv_type (driver connection) = ''aurora-mysql'') \<and>
      drv_normalizeType (driver connection) (columnHeap s r) \<noteq> ''uuid'' \<and>
      (col_generationStrategy (columnHeap s r) = Some ''uuid'' \<or>
       col_type (columnHeap s r) = ''uuid'')
        \<longrightarrow> col_length (columnHeap s' c) = ''36'') \<and>
     (\<not> (col_length (columnHeap s r) = [] \<and>
      (drv_isMySQLFamily (driver connection) \<or> drv_type (driver connection) = ''aurora-mysql'') \<and>
      drv_normalizeType (driver connection) (columnHeap s r) \<noteq> ''uuid'' \<and>
      (col_generationStrategy (columnHeap s r) = Some ''uuid'' \<or>
       col_type (columnHeap s r) = ''uuid''))
        \<longrightarrow> col_length (columnHeap s' c) = col_length (columnHeap s r))"
proof -
  from assms(2) collectColumn_new[OF assms(1)]
  have c: "c = nextRef s"
    and h: "columnHeap s' c = ColumnMetadata_build connection
              ((ColumnMetadata_new (rel_entityMetadata relation)
                  (rel_embeddedMetadata relation) (rel_propertyName relation)
                  (joinColumnName connection jcs relation (columnHeap s r))
                  (col_type (columnHeap s r)) (newColumnLength connection (columnHeap s r))
                  (columnHeap s r) (rel_isPrimary relation) (rel_isNullable relation))
               \<lparr>col_referencedColumn := Some r,
                col_relationMetadata := Some relation\<rparr>)"
    by auto
  have l: "col_length (columnHeap s' c) = newColumnLength connection (columnHeap s r)"
    and v: "col_isVirtual (columnHeap s' c)"
    unfolding h by (simp_all add: ColumnMetadata_build_keeps ColumnMetadata_new_def)
  show ?thesis
    unfolding l using c v by (simp add: newColumnLength_def)
qed

theorem new_virtual_column_length_witness:
  "col_length (columnHeap (snd (collectColumn exMySQLConnection [] exRelation 0 uuidState)) 3) = ''36'' \<and>
   col_length (columnHeap (snd (collectColumn exConnection [] exRelation 0 uuidState)) 3) = []"
proof
  have n: "nextRef uuidState = 3" by (simp add: uuidState_def exState_def)
  have col: "col_length (columnHeap uuidState 0) = []"
    "col_generationStrategy (columnHeap uuidState 0) = Some ''uuid''"
    "col_type (columnHeap uuidState 0) = ''varchar''"
    by (simp_all add: uuidState_def exState_def declaredColumn_def)
  have my: "drv_isMySQLFamily (driver exMySQLConnection)"
    "drv_normalizeType (driver exMySQLConnection) (columnHeap uuidState 0) = ''varchar''"
    "namingStrategy exMySQLConnection = exNamingStrategy"
    by (simp_all add: exMySQLConnection_def col)
  have pg: "\<not> drv_isMySQLFamily (driver exConnection)"
    "drv_type (driver exConnection) = ''postgres''"
    "namingStrategy exConnection = exNamingStrategy"
    by (simp_all add: exConnection_def)
  obtain c s' where e: "collectColumn exMySQLConnection [] exRelation 0 uuidState = (c, s')"
    by (cases "collectColumn exMySQLConnection [] exRelation 0 uuidState")
  from new_virtual_column_length [OF uuid_find [OF my(3)] e]
  have "c = 3" and "col_length (columnHeap s' c) = ''36''"
    by (auto simp: n col my)
  then have "col_length (columnHeap s' 3) = ''36''" by simp
  then
  show "col_length (columnHeap (snd (collectColumn exMySQLConnection [] exRelation 0 uuidState)) 3)
          = ''36''"
    unfolding e by simp
  obtain d t' where e': "collectColumn exConnection [] exRelation 0 uuidState = (d, t')"
    by (cases "collectColumn exConnection [] exRelation 0 uuidState")
  from new_virtual_column_length [OF uuid_find [OF pg(3)] e']
  have "d = 3" and "col_length (columnHeap t' d) = []"
    by (auto simp: n col pg)
  then have "col_length (columnHeap t' 3) = []" by simp
  then
  show "col_length (columnHeap (snd (collectColumn exConnection [] exRelation 0 uuidState)) 3) = []"
    unfolding e' by simp
qed

text \<open>
  Claim C4. When the scope of the owning entity holds a column with the computed name and
  that column already has a referenced-column link, the resolution of a further relation
  onto that name writes a clone only: the column returned is a new reference, every
  column that was in the store keeps its value, so the type and the referenced-column
  link of the original are unchanged, and the clone carries the attributes of the original
  with its own link, type and relation.
\<close>

theorem clone_leaves_original:
  assumes "findRelationalColumn (joinColumnName connection jcs relation (columnHeap s r))
             relation s = Some original"
    and "col_referencedColumn (columnHeap s original) \<noteq> None"
    and "original < nextRef s"
    and "r < nextRef s"
    and "collectColumn connection jcs relation r s = (c, s')"
  shows "c = nextRef s \<and> c \<noteq> original \<and>
         (\<forall>x<nextRef s. columnHeap s' x = columnHeap s x) \<and>
         col_type (columnHeap s' original) = col_type (columnHeap s original) \<and>
         col_referencedColumn (columnHeap s' original) =
           col_referencedColumn (columnHeap s original) \<and>
         columnHeap s' c =
           ColumnMetadata_build connection
             ((columnHeap s original)
                \<lparr>col_referencedColumn := Some r,
                 col_type := col_type (columnHeap s r),
                 col_relationMetadata := Some relation\<rparr>) \<and>
         col_type (columnHeap s' c) = col_type (columnHeap s' r) \<and>
         col_referencedColumn (columnHeap s' c) = Some r \<and>
         entities s' = entities s"
proof -
  from assms(5) collectColumn_clone[OF assms(1,2)] assms(4)
  have c: "c = nextRef s"
    and s': "s' = s\<lparr>columnHeap := (columnHeap s)
           (nextRef s := ColumnMetadata_build connection
              ((columnHeap s original)
               \<lparr>col_referencedColumn := Some r,
                col_type := col_type (columnHeap s r),
                col_relationMetadata := Some relation\<rparr>)),
         nextRef := Suc (nextRef s)\<rparr>"
    by auto
  from c assms(3) have ne: "c \<noteq> original" by simp
  have fr: "\<forall>x<nextRef s. columnHeap s' x = columnHeap s x"
    unfolding s' by simp
  have cl: "columnHeap s' c =
           ColumnMetadata_build connection
             ((columnHeap s original)
                \<lparr>col_referencedColumn := Some r,
                 col_type := col_type (columnHeap s r),
                 col_relationMetadata := Some relation\<rparr>)"
    unfolding s' c by simp
  have ty: "col_type (columnHeap s' c) = col_type (columnHeap s' r)"
    unfolding cl using fr assms(4) by (simp add: ColumnMetadata_build_keeps)
  have ln: "col_referencedColumn (columnHeap s' c) = Some r"
    unfolding cl by (simp add: ColumnMetadata_build_keeps)
  have en: "entities s' = entities s" unfolding s' by simp
  from fr assms(3) have "columnHeap s' original = columnHeap s original" by simp
  with c ne fr cl ty ln en show ?thesis by simp
qed

theorem clone_leaves_original_witness:
  "columnHeap (snd (collectColumn exConnection [joinColumnArgs (Some ''cat_id'') None]
                      exSecondRelation 0 sharedState)) 3 = linkedColumn \<and>
   fst (collectColumn exConnection [joinColumnArgs (Some ''cat_id'') None]
          exSecondRelation 0 sharedState) = 4"
proof -
  let ?jcs = "[joinColumnArgs (Some ''cat_id'') None]"
  obtain c s' where e: "collectColumn exConnection ?jcs exSecondRelation 0 sharedState = (c, s')"
    by (cases "collectColumn exConnection ?jcs exSecondRelation 0 sharedState")
  have l: "col_referencedColumn (columnHeap sharedState 3) \<noteq> None"
    by (simp add: sharedState_def linkedColumn_def)
  have n: "nextRef sharedState = 4" by (simp add: sharedState_def)
  have o: "columnHeap sharedState 3 = linkedColumn" by (simp add: sharedState_def)
  from clone_leaves_original [OF second_find l _ _ e]
  have "c = 4" and "columnHeap s' 3 = linkedColumn"
    by (simp_all add: n o)
  then show ?thesis unfolding e by simp
qed

section \<open>The foreign key and the unique constraint\<close>

lemma collectColumns_length:
  "collectColumns connection jcs relation refs s = (cols, s') \<Longrightarrow> length cols = length refs"
proof (induction refs arbitrary: s cols s')
  case Nil
  then show ?case by simp
next
  case (Cons r rs)
  obtain c s1 where c: "collectColumn connection jcs relation r s = (c, s1)"
    by (cases "collectColumn connection jcs relation r s")
  obtain cs s2 where cs: "collectColumns connection jcs relation rs s1 = (cs, s2)"
    by (cases "collectColumns connection jcs relation rs s1")
  from Cons.prems c cs have "cols = c # cs" by simp
  with Cons.IH[OF cs] show ?case by simp
qed

lemma title_find:
  "findRelationalColumn
     (joinColumnName exConnection [joinColumnArgs None (Some ''title'')] exOneToOne
        (columnHeap exState 1)) exOneToOne exState = None"
  by (simp add: findRelationalColumn_def joinColumnName_def relationalColumns_def
        exOneToOne_def ex_defs)

lemma title_build:
  "\<exists>s'. build exConnection [joinColumnArgs None (Some ''title'')] exOneToOne exState =
          (Inr \<lparr>foreignKey = Some (ForeignKeyMetadata_new None exOneToOne [3] [1]),
                columns = [3],
                uniqueConstraint =
                  Some (UniqueMetadata_new 0 [3] ''REL_postcategory_title'' ''Post'')\<rparr>, s') \<and>
        \<not> col_isPrimary (columnHeap s' 3) \<and>
        col_databaseName (columnHeap s' 3) = ''category_title'' \<and>
        ent_tableName (entities s' 0) = ''post''"
proof -
  let ?jcs = "[joinColumnArgs None (Some ''title'')]"
  have r: "collectReferencedColumns ?jcs exOneToOne exState = Inr [1]"
    by (simp add: collectReferencedColumns_def exOneToOne_def ex_defs)
  obtain s' where e: "collectColumn exConnection ?jcs exOneToOne 1 exState = (3, s')"
    and p: "\<not> col_isPrimary (columnHeap s' 3)"
    and d: "col_databaseName (columnHeap s' 3) = ''category_title''"
    and t: "ent_tableName (entities s' 0) = ''post''" "ent_target (entities s' 0) = ''Post''"
    unfolding collectColumn_new[OF title_find]
    by (simp add: ColumnMetadata_build_def ColumnMetadata_new_def joinColumnName_def
          exOneToOne_def ex_defs)
  have f: "rel_createForeignKeyConstraints exOneToOne" "rel_isOneToOne exOneToOne"
    "rel_entityMetadata exOneToOne = 0" "namingStrategy exConnection = exNamingStrategy"
    by (simp_all add: exOneToOne_def exRelation_def exConnection_def)
  have "build exConnection ?jcs exOneToOne exState =
          (Inr \<lparr>foreignKey = Some (ForeignKeyMetadata_new None exOneToOne [3] [1]),
                columns = [3],
                uniqueConstraint =
                  Some (UniqueMetadata_new 0 [3] ''REL_postcategory_title'' ''Post'')\<rparr>, s')"
    by (simp add: build_def r e p d t f joinColumnArgs_sel UniqueMetadata_build_def
          exNamingStrategy_def Let_def ForeignKeyMetadata_new_def del: One_nat_def)
  with p d t show ?thesis by blast
qed

text \<open>
  Claim C8. When the resolved list of referenced columns is empty, or the relation has
  \<^verbatim>\<open>createForeignKeyConstraints\<close> set to false, \<^verbatim>\<open>build\<close> returns the columns that
  \<^verbatim>\<open>collectColumns\<close> produced, one per referenced column and none when there is no
  referenced column, with no foreign key and no unique constraint. In this embedding a
  foreign key or a unique constraint exists only as a component of the result, so a result
  without them is a call that constructed neither.
\<close>

theorem build_without_foreign_key:
  assumes "collectReferencedColumns jcs relation s = Inr refs"
    and "refs = [] \<or> \<not> rel_createForeignKeyConstraints relation"
  shows "\<exists>cols s'.
           build connection jcs relation s =
             (Inr \<lparr>foreignKey = None, columns = cols, uniqueConstraint = None\<rparr>, s') \<and>
           collectColumns connection jcs relation refs s = (cols, s') \<and>
           length cols = length refs \<and>
           (refs = [] \<longrightarrow> cols = [] \<and> s' = s)"
proof -
  obtain cols s' where c: "collectColumns connection jcs relation refs s = (cols, s')"
    by (cases "collectColumns connection jcs relation refs s")
  from assms c have "build connection jcs relation s =
             (Inr \<lparr>foreignKey = None, columns = cols, uniqueConstraint = None\<rparr>, s')"
    by (auto simp: build_def)
  moreover from c have "length cols = length refs" by (rule collectColumns_length)
  moreover from c have "refs = [] \<longrightarrow> cols = [] \<and> s' = s" by auto
  ultimately show ?thesis using c by blast
qed

theorem build_without_foreign_key_witness:
  "build exConnection [] exOneToOne exState =
     (Inr \<lparr>foreignKey = None, columns = [], uniqueConstraint = None\<rparr>, exState) \<and>
   (\<exists>c s'. build exConnection [] (exRelation\<lparr>rel_createForeignKeyConstraints := False\<rparr>) exState =
     (Inr \<lparr>foreignKey = None, columns = [c], uniqueConstraint = None\<rparr>, s'))"
proof
  have "collectReferencedColumns [] exOneToOne exState = Inr []"
    by (simp add: collectReferencedColumns_def exOneToOne_def)
  from build_without_foreign_key [OF this, of exConnection]
  show "build exConnection [] exOneToOne exState =
     (Inr \<lparr>foreignKey = None, columns = [], uniqueConstraint = None\<rparr>, exState)"
    by auto
  let ?rel = "exRelation\<lparr>rel_createForeignKeyConstraints := False\<rparr>"
  have "collectReferencedColumns [] ?rel exState = Inr [0]"
    by (simp add: collectReferencedColumns_def exRelation_def exState_def)
  moreover have "[0::nat] = [] \<or> \<not> rel_createForeignKeyConstraints ?rel" by simp
  ultimately obtain cols s' where
    b: "build exConnection [] ?rel exState =
          (Inr \<lparr>foreignKey = None, columns = cols, uniqueConstraint = None\<rparr>, s')"
    and l: "length cols = length [0::nat]"
    using build_without_foreign_key [of "[]" ?rel exState "[0]" exConnection] by blast
  from l obtain c where "cols = [c]" by (cases cols) auto
  with b show "\<exists>c s'. build exConnection [] ?rel exState =
     (Inr \<lparr>foreignKey = None, columns = [c], uniqueConstraint = None\<rparr>, s')" by blast
qed

text \<open>
  Claim C6. When \<^verbatim>\<open>build\<close> returns a foreign key, the unique constraint of the result
  is absent exactly when every returned column is a primary column, in the store the call
  leaves behind, or the relation is not one-to-one. Otherwise the unique constraint is over
  the columns of the foreign key, which are the returned columns, and the name it is given
  is the \<^verbatim>\<open>relationConstraintName\<close> of the naming strategy for the table name of the
  owning entity and the database names of those columns.
\<close>

theorem build_unique_constraint:
  assumes "build connection jcs relation s = (Inr result, s')"
    and "foreignKey result = Some fk"
  shows "(uniqueConstraint result = None \<longleftrightarrow>
            (\<forall>c\<in>set (columns result). col_isPrimary (columnHeap s' c)) \<or>
            \<not> rel_isOneToOne relation) \<and>
         (\<forall>uq. uniqueConstraint result = Some uq \<longrightarrow>
            uq_columns uq = fk_columns fk \<and>
            fk_columns fk = columns result \<and>
            uq_entityMetadata uq = rel_entityMetadata relation \<and>
            uq_givenName uq =
              ns_relationConstraintName (namingStrategy connection)
                (ent_tableName (entities s' (rel_entityMetadata relation)))
                (map (\<lambda>c. col_databaseName (columnHeap s' c)) (fk_columns fk)))"
proof -
  from assms(1) obtain refs where r: "collectReferencedColumns jcs relation s = Inr refs"
    by (auto simp: build_def split: sum.splits)
  obtain cols s1 where c: "collectColumns connection jcs relation refs s = (cols, s1)"
    by (cases "collectColumns connection jcs relation refs s")
  from assms r c have s1: "s1 = s'" and cr: "columns result = cols"
    by (auto simp: build_def Let_def split: if_splits)
  from assms r c have fk: "fk_columns fk = cols"
    by (auto simp: build_def Let_def ForeignKeyMetadata_new_def split: if_splits)
  from assms r c have g: "\<not> (refs = [] \<or> \<not> rel_createForeignKeyConstraints relation)"
    by (auto simp: build_def Let_def split: if_splits)
  show ?thesis
  proof (cases "list_all (\<lambda>column. col_isPrimary (columnHeap s1 column)) cols \<or>
                \<not> rel_isOneToOne relation")
    case True
    with assms(1) r c g have "uniqueConstraint result = None"
      by (auto simp: build_def Let_def)
    with True s1 cr show ?thesis by (auto simp: list_all_iff)
  next
    case False
    with assms(1) r c g have
      "uniqueConstraint result =
         Some (UniqueMetadata_build (namingStrategy connection)
                 (UniqueMetadata_new (rel_entityMetadata relation) cols
                    (ns_relationConstraintName (namingStrategy connection)
                       (ent_tableName (entities s1 (rel_entityMetadata relation)))
                       (map (\<lambda>column. col_databaseName (columnHeap s1 column)) cols))
                    (ent_target (entities s1 (rel_entityMetadata relation)))))"
      by (auto simp: build_def Let_def ForeignKeyMetadata_new_def)
    with False s1 cr fk show ?thesis
      by (auto simp: list_all_iff UniqueMetadata_build_def UniqueMetadata_new_def)
  qed
qed

theorem build_unique_constraint_witness:
  "\<exists>result s' uq.
     build exConnection [joinColumnArgs None (Some ''title'')] exOneToOne exState = (Inr result, s') \<and>
     uniqueConstraint result = Some uq \<and>
     uq_columns uq = columns result \<and>
     uq_givenName uq = ''REL_postcategory_title''"
proof -
  let ?jcs = "[joinColumnArgs None (Some ''title'')]"
  from title_build obtain s' where
    b: "build exConnection ?jcs exOneToOne exState =
          (Inr \<lparr>foreignKey = Some (ForeignKeyMetadata_new None exOneToOne [3] [1]),
                columns = [3],
                uniqueConstraint =
                  Some (UniqueMetadata_new 0 [3] ''REL_postcategory_title'' ''Post'')\<rparr>, s')"
    and p: "\<not> col_isPrimary (columnHeap s' 3)"
    and d: "col_databaseName (columnHeap s' 3) = ''category_title''"
    and t: "ent_tableName (entities s' 0) = ''post''"
    by blast
  have f: "rel_isOneToOne exOneToOne" "rel_entityMetadata exOneToOne = 0"
    "ns_relationConstraintName (namingStrategy exConnection) ''post'' [''category_title'']
       = ''REL_postcategory_title''"
    by (simp_all add: exOneToOne_def exRelation_def exConnection_def exNamingStrategy_def)
  from build_unique_constraint [OF b, of "ForeignKeyMetadata_new None exOneToOne [3] [1]"]
  have "uniqueConstraint \<lparr>foreignKey = Some (ForeignKeyMetadata_new None exOneToOne [3] [1]),
                columns = [3],
                uniqueConstraint =
                  Some (UniqueMetadata_new 0 [3] ''REL_postcategory_title'' ''Post'')\<rparr> \<noteq> None"
    and "uq_columns (UniqueMetadata_new 0 [3] ''REL_postcategory_title'' ''Post'') = [3]"
    and "uq_givenName (UniqueMetadata_new 0 [3] ''REL_postcategory_title'' ''Post'')
           = ''REL_postcategory_title''"
    by (simp_all add: p d t f ForeignKeyMetadata_new_def)
  with b show ?thesis by auto
qed

section \<open>Registration of join columns\<close>





section \<open>The pairing of columns and referenced columns\<close>

lemma relationalColumns_step:
  assumes "collectColumn connection jcs relation r s = (c, s')"
  shows "(relationalColumns relation s' = relationalColumns relation s \<and>
          (nextRef s' = nextRef s \<or> nextRef s' = Suc (nextRef s))) \<or>
         (relationalColumns relation s' = relationalColumns relation s @ [nextRef s] \<and>
          nextRef s' = Suc (nextRef s))"
proof (cases "findRelationalColumn (joinColumnName connection jcs relation (columnHeap s r)) relation s")
  case None
  from assms collectColumn_new[OF None] show ?thesis
    by (cases "rel_embeddedMetadata relation") (auto simp: relationalColumns_def)
next
  case (Some found)
  show ?thesis
  proof (cases "col_referencedColumn (columnHeap s found) = None")
    case True
    from assms collectColumn_reuse[OF Some True] show ?thesis
      by (auto simp: relationalColumns_def split: option.splits)
  next
    case False
    from assms collectColumn_clone[OF Some False] show ?thesis
      by (auto simp: relationalColumns_def split: option.splits)
  qed
qed

lemma collectColumn_result:
  assumes "collectColumn connection jcs relation r s = (c, s')"
  shows "(c = nextRef s \<and> nextRef s' = Suc (nextRef s)) \<or>
         (c \<in> set (relationalColumns relation s) \<and>
          col_referencedColumn (columnHeap s c) = None \<and> nextRef s' = nextRef s)"
proof (cases "findRelationalColumn (joinColumnName connection jcs relation (columnHeap s r)) relation s")
  case None
  from assms collectColumn_new[OF None] show ?thesis by auto
next
  case (Some found)
  show ?thesis
  proof (cases "col_referencedColumn (columnHeap s found) = None")
    case True
    from assms collectColumn_reuse[OF Some True] True findRelationalColumn_Some[OF Some]
    show ?thesis by auto
  next
    case False
    from assms collectColumn_clone[OF Some False] show ?thesis by auto
  qed
qed

lemma collectColumn_others:
  assumes "collectColumn connection jcs relation r s = (c, s')" and "x \<noteq> c"
  shows "columnHeap s' x = columnHeap s x"
proof (cases "findRelationalColumn (joinColumnName connection jcs relation (columnHeap s r)) relation s")
  case None
  from assms collectColumn_new[OF None] show ?thesis by auto
next
  case (Some found)
  show ?thesis
  proof (cases "col_referencedColumn (columnHeap s found) = None")
    case True
    from assms collectColumn_reuse[OF Some True] show ?thesis by auto
  next
    case False
    from assms collectColumn_clone[OF Some False] show ?thesis by auto
  qed
qed

text \<open>
  What one step preserves: references stay below the allocation mark, the scope grows by
  new references only, and a stored column that is linked, or outside the scope, keeps
  its value.
\<close>

lemma collectColumn_step:
  assumes wf: "\<forall>x\<in>set (relationalColumns relation s). x < nextRef s"
    and e: "collectColumn connection jcs relation r s = (c, s')"
  shows "nextRef s \<le> nextRef s'"
    and "c < nextRef s'"
    and "\<forall>x\<in>set (relationalColumns relation s'). x < nextRef s'"
    and "set (relationalColumns relation s') \<subseteq>
           set (relationalColumns relation s) \<union> {nextRef s..<nextRef s'}"
    and "\<forall>x<nextRef s.
           col_referencedColumn (columnHeap s x) \<noteq> None \<or>
           x \<notin> set (relationalColumns relation s)
           \<longrightarrow> columnHeap s' x = columnHeap s x"
proof -
  note rs = relationalColumns_step[OF e] and cr = collectColumn_result[OF e]
  from cr show "nextRef s \<le> nextRef s'" by auto
  from cr wf show "c < nextRef s'" by auto
  from rs wf show "\<forall>x\<in>set (relationalColumns relation s'). x < nextRef s'"
    by (fastforce simp: less_Suc_eq)
  from rs show "set (relationalColumns relation s') \<subseteq>
           set (relationalColumns relation s) \<union> {nextRef s..<nextRef s'}" by auto
  show "\<forall>x<nextRef s.
           col_referencedColumn (columnHeap s x) \<noteq> None \<or>
           x \<notin> set (relationalColumns relation s)
           \<longrightarrow> columnHeap s' x = columnHeap s x"
  proof (intro allI impI)
    fix x assume "x < nextRef s"
      and "col_referencedColumn (columnHeap s x) \<noteq> None \<or>
           x \<notin> set (relationalColumns relation s)"
    with cr have "x \<noteq> c" by auto
    with e show "columnHeap s' x = columnHeap s x" by (rule collectColumn_others)
  qed
qed

lemma collectColumns_frame:
  assumes "\<forall>x\<in>set (relationalColumns relation s). x < nextRef s"
    and "collectColumns connection jcs relation refs s = (cols, s')"
  shows "nextRef s \<le> nextRef s' \<and>
         (\<forall>x\<in>set (relationalColumns relation s'). x < nextRef s') \<and>
         set (relationalColumns relation s') \<subseteq>
           set (relationalColumns relation s) \<union> {nextRef s..<nextRef s'} \<and>
         (\<forall>x<nextRef s.
            col_referencedColumn (columnHeap s x) \<noteq> None \<or>
            x \<notin> set (relationalColumns relation s)
            \<longrightarrow> columnHeap s' x = columnHeap s x)"
  using assms
proof (induction refs arbitrary: s cols s')
  case Nil
  then show ?case by simp
next
  case (Cons r rs)
  obtain c s1 where c: "collectColumn connection jcs relation r s = (c, s1)"
    by (cases "collectColumn connection jcs relation r s")
  obtain cs s2 where cs: "collectColumns connection jcs relation rs s1 = (cs, s2)"
    by (cases "collectColumns connection jcs relation rs s1")
  from Cons.prems(2) c cs have s2: "s2 = s'" by simp
  note st = collectColumn_step[OF Cons.prems(1) c]
  note ih = Cons.IH[OF st(3) cs, unfolded s2]
  have n: "nextRef s \<le> nextRef s'" using st(1) ih by simp
  have "{nextRef s..<nextRef s1} \<union> {nextRef s1..<nextRef s'} \<subseteq> {nextRef s..<nextRef s'}"
    using st(1) ih by auto
  with st(4) ih have sub: "set (relationalColumns relation s') \<subseteq>
           set (relationalColumns relation s) \<union> {nextRef s..<nextRef s'}"
    by blast
  have fr: "\<forall>x<nextRef s.
            col_referencedColumn (columnHeap s x) \<noteq> None \<or>
            x \<notin> set (relationalColumns relation s)
            \<longrightarrow> columnHeap s' x = columnHeap s x"
  proof (intro allI impI)
    fix x assume x: "x < nextRef s"
      and k: "col_referencedColumn (columnHeap s x) \<noteq> None \<or>
           x \<notin> set (relationalColumns relation s)"
    from st(5) x k have h1: "columnHeap s1 x = columnHeap s x" by blast
    from x st(1) have x1: "x < nextRef s1" by simp
    from k h1 st(4) x have "col_referencedColumn (columnHeap s1 x) \<noteq> None \<or>
           x \<notin> set (relationalColumns relation s1)" by auto
    with ih x1 have "columnHeap s' x = columnHeap s1 x" by blast
    with h1 show "columnHeap s' x = columnHeap s x" by simp
  qed
  from n ih sub fr show ?case by blast
qed

text \<open>
  The parts of the pairing that hold for every input whose scope columns are allocated in
  the store: one column per referenced column, in order, each linked to its referenced
  column.
\<close>

lemma collectColumns_links:
  assumes "\<forall>x\<in>set (relationalColumns relation s). x < nextRef s"
    and "collectColumns connection jcs relation refs s = (cols, s')"
  shows "length cols = length refs \<and>
         (\<forall>i<length refs. col_referencedColumn (columnHeap s' (cols ! i)) = Some (refs ! i))"
  using assms
proof (induction refs arbitrary: s cols s')
  case Nil
  then show ?case by auto
next
  case (Cons r rs)
  obtain c s1 where c: "collectColumn connection jcs relation r s = (c, s1)"
    by (cases "collectColumn connection jcs relation r s")
  obtain cs s2 where cs: "collectColumns connection jcs relation rs s1 = (cs, s2)"
    by (cases "collectColumns connection jcs relation rs s1")
  from Cons.prems(2) c cs have s2: "s2 = s'" and cols: "cols = c # cs" by simp_all
  note st = collectColumn_step[OF Cons.prems(1) c]
  note ih = Cons.IH[OF st(3) cs, unfolded s2]
  note fr = collectColumns_frame[OF st(3) cs, unfolded s2]
  from collectColumn_link[OF c] have l1: "col_referencedColumn (columnHeap s1 c) = Some r" .
  with fr st(2) have "columnHeap s' c = columnHeap s1 c" by auto
  with l1 have hd: "col_referencedColumn (columnHeap s' c) = Some r" by simp
  show ?case
  proof (intro conjI allI impI)
    show "length cols = length (r # rs)" using ih cols by simp
  next
    fix i assume "i < length (r # rs)"
    then show "col_referencedColumn (columnHeap s' (cols ! i)) = Some ((r # rs) ! i)"
      using hd ih cols by (cases i) auto
  qed
qed

text \<open>
  The types of a pair agree as well when no referenced column can be taken as a join
  column: each referenced column is linked already or lies outside the scope.
\<close>

lemma collectColumns_types:
  assumes "\<forall>x\<in>set (relationalColumns relation s). x < nextRef s"
    and "\<forall>r\<in>set refs. r < nextRef s \<and>
           (col_referencedColumn (columnHeap s r) \<noteq> None \<or>
            r \<notin> set (relationalColumns relation s))"
    and "collectColumns connection jcs relation refs s = (cols, s')"
  shows "\<forall>i<length refs.
           col_type (columnHeap s' (cols ! i)) = col_type (columnHeap s' (refs ! i)) \<and>
           columnHeap s' (refs ! i) = columnHeap s (refs ! i)"
  using assms
proof (induction refs arbitrary: s cols s')
  case Nil
  then show ?case by simp
next
  case (Cons r rs)
  obtain c s1 where c: "collectColumn connection jcs relation r s = (c, s1)"
    by (cases "collectColumn connection jcs relation r s")
  obtain cs s2 where cs: "collectColumns connection jcs relation rs s1 = (cs, s2)"
    by (cases "collectColumns connection jcs relation rs s1")
  from Cons.prems(3) c cs have s2: "s2 = s'" and cols: "cols = c # cs" by simp_all
  note st = collectColumn_step[OF Cons.prems(1) c]
  note fr = collectColumns_frame[OF st(3) cs, unfolded s2]
  have keep: "\<forall>x\<in>set (r # rs). columnHeap s1 x = columnHeap s x \<and> x < nextRef s1 \<and>
           (col_referencedColumn (columnHeap s1 x) \<noteq> None \<or>
            x \<notin> set (relationalColumns relation s1))"
  proof
    fix x assume "x \<in> set (r # rs)"
    with Cons.prems(2) have x: "x < nextRef s"
      and k: "col_referencedColumn (columnHeap s x) \<noteq> None \<or>
            x \<notin> set (relationalColumns relation s)" by auto
    from st(5) x k have h: "columnHeap s1 x = columnHeap s x" by blast
    from k h st(4) x have "col_referencedColumn (columnHeap s1 x) \<noteq> None \<or>
            x \<notin> set (relationalColumns relation s1)" by auto
    with h x st(1) show "columnHeap s1 x = columnHeap s x \<and> x < nextRef s1 \<and>
           (col_referencedColumn (columnHeap s1 x) \<noteq> None \<or>
            x \<notin> set (relationalColumns relation s1))" by simp
  qed
  then have p2: "\<forall>r\<in>set rs. r < nextRef s1 \<and>
           (col_referencedColumn (columnHeap s1 r) \<noteq> None \<or>
            r \<notin> set (relationalColumns relation s1))" by auto
  note ih = Cons.IH[OF st(3) p2 cs, unfolded s2]
  from Cons.prems(2) have r: "r < nextRef s" by simp
  from collectColumn_type[OF c r] have t1: "col_type (columnHeap s1 c) = col_type (columnHeap s r)"
    by simp
  from collectColumn_link[OF c] fr st(2) have hc: "columnHeap s' c = columnHeap s1 c" by auto
  from keep fr have hr: "columnHeap s' r = columnHeap s1 r" by auto
  from keep have hr0: "columnHeap s1 r = columnHeap s r" by simp
  have hd: "col_type (columnHeap s' c) = col_type (columnHeap s' r) \<and>
            columnHeap s' r = columnHeap s r"
    using t1 hc hr hr0 by simp
  show ?case
  proof (intro allI impI)
    fix i assume i: "i < length (r # rs)"
    show "col_type (columnHeap s' (cols ! i)) = col_type (columnHeap s' ((r # rs) ! i)) \<and>
           columnHeap s' ((r # rs) ! i) = columnHeap s ((r # rs) ! i)"
    proof (cases i)
      case 0
      with hd cols show ?thesis by simp
    next
      case (Suc j)
      with i have j: "j < length rs" by simp
      with ih have "col_type (columnHeap s' (cs ! j)) = col_type (columnHeap s' (rs ! j)) \<and>
           columnHeap s' (rs ! j) = columnHeap s1 (rs ! j)" by blast
      moreover from keep j have "columnHeap s1 (rs ! j) = columnHeap s (rs ! j)" by simp
      ultimately show ?thesis using Suc cols by simp
    qed
  qed
qed

lemma build_foreign_key_pairs:
  assumes wf: "\<forall>x\<in>set (relationalColumns relation s). x < nextRef s"
    and b: "build connection jcs relation s = (Inr result, s')"
    and k: "foreignKey result = Some fk"
  shows "length (fk_columns fk) = length (fk_referencedColumns fk)"
    and "collectReferencedColumns jcs relation s = Inr (fk_referencedColumns fk)"
    and "fk_columns fk = columns result"
    and "\<forall>i<length (fk_columns fk).
           col_referencedColumn (columnHeap s' (fk_columns fk ! i)) =
             Some (fk_referencedColumns fk ! i)"
    and "(\<forall>r\<in>set (fk_referencedColumns fk). r < nextRef s \<and>
            (col_referencedColumn (columnHeap s r) \<noteq> None \<or>
             r \<notin> set (relationalColumns relation s)))
         \<Longrightarrow> \<forall>i<length (fk_columns fk).
               col_type (columnHeap s' (fk_columns fk ! i)) =
                 col_type (columnHeap s' (fk_referencedColumns fk ! i))"
proof -
  from b obtain refs where r: "collectReferencedColumns jcs relation s = Inr refs"
    by (auto simp: build_def split: sum.splits)
  obtain cols s1 where c: "collectColumns connection jcs relation refs s = (cols, s1)"
    by (cases "collectColumns connection jcs relation refs s")
  from b k r c have s1: "s1 = s'" and cr: "columns result = cols"
    and fc: "fk_columns fk = cols" and fr: "fk_referencedColumns fk = refs"
    by (auto simp: build_def Let_def ForeignKeyMetadata_new_def split: if_splits)
  note l = collectColumns_links[OF wf c, unfolded s1]
  from l fc fr show "length (fk_columns fk) = length (fk_referencedColumns fk)" by simp
  from r fr show "collectReferencedColumns jcs relation s = Inr (fk_referencedColumns fk)" by simp
  from fc cr show "fk_columns fk = columns result" by simp
  from l fc fr show "\<forall>i<length (fk_columns fk).
           col_referencedColumn (columnHeap s' (fk_columns fk ! i)) =
             Some (fk_referencedColumns fk ! i)" by simp
  assume "\<forall>r\<in>set (fk_referencedColumns fk). r < nextRef s \<and>
            (col_referencedColumn (columnHeap s r) \<noteq> None \<or>
             r \<notin> set (relationalColumns relation s))"
  then have "\<forall>r\<in>set refs. r < nextRef s \<and>
            (col_referencedColumn (columnHeap s r) \<noteq> None \<or>
             r \<notin> set (relationalColumns relation s))" by (simp add: fr)
  from collectColumns_types[OF wf this c, unfolded s1] l fc fr
  show "\<forall>i<length (fk_columns fk).
               col_type (columnHeap s' (fk_columns fk ! i)) =
                 col_type (columnHeap s' (fk_referencedColumns fk ! i))" by simp
qed

text \<open>
  A whole resolution leaves every linked column of the store as it was.
\<close>

lemma build_keeps_linked_columns:
  assumes wf: "\<forall>x\<in>set (relationalColumns relation s). x < nextRef s"
    and b: "build connection jcs relation s = (outcome, s')"
    and x: "x < nextRef s" "col_referencedColumn (columnHeap s x) \<noteq> None"
  shows "columnHeap s' x = columnHeap s x"
proof (cases "collectReferencedColumns jcs relation s")
  case (Inl e)
  with b show ?thesis by (simp add: build_def)
next
  case (Inr refs)
  obtain cols s1 where c: "collectColumns connection jcs relation refs s = (cols, s1)"
    by (cases "collectColumns connection jcs relation refs s")
  from b Inr c have "s1 = s'"
    by (auto simp: build_def Let_def split: if_splits)
  with collectColumns_frame[OF wf c] x show ?thesis by blast
qed

lemmas self_defs = selfState_def selfRelation_def selfJoinColumns_def

lemma self_first_find:
  "findRelationalColumn
     (joinColumnName exConnection selfJoinColumns selfRelation (columnHeap selfState 0))
     selfRelation selfState = None"
  by (simp add: findRelationalColumn_def joinColumnName_def relationalColumns_def
        self_defs ex_defs)

lemma self_build:
  "\<exists>s'. build exConnection selfJoinColumns selfRelation selfState =
          (Inr \<lparr>foreignKey = Some (ForeignKeyMetadata_new None selfRelation [2, 0] [0, 1]),
                columns = [2, 0], uniqueConstraint = None\<rparr>, s') \<and>
        col_type (columnHeap s' 2) = ''int'' \<and>
        col_referencedColumn (columnHeap s' 2) = Some 0 \<and>
        col_type (columnHeap s' 0) = ''varchar'' \<and>
        col_referencedColumn (columnHeap s' 0) = Some 1 \<and>
        col_type (columnHeap s' 1) = ''varchar''"
proof -
  have r: "collectReferencedColumns selfJoinColumns selfRelation selfState = Inr [0, 1]"
    by (simp add: collectReferencedColumns_def self_defs ex_defs)
  obtain s1 where e1: "collectColumn exConnection selfJoinColumns selfRelation 0 selfState = (2, s1)"
    and own: "relationalColumns selfRelation s1 = [0, 1, 2]"
    and a: "columnHeap s1 0 = declaredColumn 0 ''a'' ''int'' True"
    and b: "columnHeap s1 1 = declaredColumn 0 ''b'' ''varchar'' True"
    and x: "col_type (columnHeap s1 2) = ''int''" "col_referencedColumn (columnHeap s1 2) = Some 0"
    unfolding collectColumn_new[OF self_first_find]
    by (simp add: ColumnMetadata_build_def ColumnMetadata_new_def relationalColumns_def
          self_defs ex_defs)
  have f2: "findRelationalColumn
      (joinColumnName exConnection selfJoinColumns selfRelation (columnHeap s1 1))
      selfRelation s1 = Some 0"
    by (simp add: findRelationalColumn_def joinColumnName_def own a b selfJoinColumns_def
          joinColumnArgs_sel truthy_def declaredColumn_def del: One_nat_def)
  have u: "col_referencedColumn (columnHeap s1 0) = None"
    by (simp add: a declaredColumn_def)
  obtain s2 where e2: "collectColumn exConnection selfJoinColumns selfRelation 1 s1 = (0, s2)"
    and ty: "col_type (columnHeap s2 2) = ''int''" "col_type (columnHeap s2 0) = ''varchar''"
      "col_type (columnHeap s2 1) = ''varchar''"
    and ln: "col_referencedColumn (columnHeap s2 2) = Some 0"
      "col_referencedColumn (columnHeap s2 0) = Some 1"
    and pr: "col_isPrimary (columnHeap s2 0)"
    unfolding collectColumn_reuse[OF f2 u]
    by (simp add: ColumnMetadata_build_keeps a b x declaredColumn_def del: One_nat_def)
  have f: "rel_createForeignKeyConstraints selfRelation" "\<not> rel_isOneToOne selfRelation"
    by (simp_all add: selfRelation_def exRelation_def)
  have n: "selfJoinColumns \<noteq> []"
    "(case selfJoinColumns of [] \<Rightarrow> None | first # _ \<Rightarrow> jc_foreignKeyConstraintName first) = None"
    by (simp_all add: selfJoinColumns_def joinColumnArgs_sel)
  have "build exConnection selfJoinColumns selfRelation selfState =
          (Inr \<lparr>foreignKey = Some (ForeignKeyMetadata_new None selfRelation [2, 0] [0, 1]),
                columns = [2, 0], uniqueConstraint = None\<rparr>, s2)"
    by (simp add: build_def r e1 e2 f n del: One_nat_def)
  with ty ln show ?thesis by blast
qed

text \<open>
  Claim C2 says that the columns and the referenced columns of a returned foreign key are
  paired position by position, each column linked to its referenced column and of the
  same type. The lengths, the order and the links hold for every input whose scope columns
  are allocated in the store, and the types agree whenever no referenced column can itself
  be taken as a join column (lemma
  \<open>build_foreign_key_pairs\<close>). The types do not agree for the self-referencing entity
  \<^verbatim>\<open>Node\<close>: the second specification names its join column \<^verbatim>\<open>a\<close>, which is the
  column the first specification references. The builder first creates \<^verbatim>\<open>x\<close>
  (reference 2) with the type \<^verbatim>\<open>int\<close> of \<^verbatim>\<open>a\<close>, then takes \<^verbatim>\<open>a\<close> in place as the
  second join column and overrides its type with the \<^verbatim>\<open>varchar\<close> of \<^verbatim>\<open>b\<close>. The
  foreign key returned pairs \<^verbatim>\<open>x\<close>, of type \<^verbatim>\<open>int\<close>, with \<^verbatim>\<open>a\<close>, of type
  \<^verbatim>\<open>varchar\<close>.
\<close>

theorem build_self_reference_types:
  "fst (build exConnection selfJoinColumns selfRelation selfState) =
     Inr \<lparr>foreignKey = Some (ForeignKeyMetadata_new None selfRelation [2, 0] [0, 1]),
          columns = [2, 0], uniqueConstraint = None\<rparr> \<and>
   col_referencedColumn
     (columnHeap (snd (build exConnection selfJoinColumns selfRelation selfState)) 2) = Some 0 \<and>
   col_type (columnHeap (snd (build exConnection selfJoinColumns selfRelation selfState)) 2)
     = ''int'' \<and>
   col_type (columnHeap (snd (build exConnection selfJoinColumns selfRelation selfState)) 0)
     = ''varchar''"
proof -
  from self_build obtain s' where
    "build exConnection selfJoinColumns selfRelation selfState =
          (Inr \<lparr>foreignKey = Some (ForeignKeyMetadata_new None selfRelation [2, 0] [0, 1]),
                columns = [2, 0], uniqueConstraint = None\<rparr>, s')"
    "col_type (columnHeap s' 2) = ''int''"
    "col_referencedColumn (columnHeap s' 2) = Some 0"
    "col_type (columnHeap s' 0) = ''varchar''"
    by blast
  then show ?thesis by simp
qed

theorem build_self_reference_types_witness:
  "col_type (columnHeap (snd (build exConnection selfJoinColumns selfRelation selfState)) 2) \<noteq>
   col_type (columnHeap (snd (build exConnection selfJoinColumns selfRelation selfState)) 0)"
  using build_self_reference_types by simp

end
